theory Spec2Isabelle
  imports Complex_Main "HOL-Library.AList"
begin

section \<open>JavaScript values and strings\<close>

text \<open>
  The extraction pipeline is JavaScript. The primitive values that reach the transform
  library are modelled by \<open>jsval\<close>. A number is the exact rational it denotes, or NaN;
  rounding to binary64, the infinities and the sign of zero are not modelled. A string is
  a list of code units below 256.

  An exception is a value: a function that can throw returns \<open>js_error + 'a\<close>, with
  \<open>Inl\<close> for the exception.
\<close>

datatype js_error = TypeError | Error string

datatype jsval = JUndefined | JNull | JBool bool | JNum rat | JNaN | JStr string

text \<open>ToBoolean on the primitives.\<close>

fun truthy :: "jsval \<Rightarrow> bool" where
  "truthy JUndefined = False"
| "truthy JNull = False"
| "truthy (JBool b) = b"
| "truthy (JNum n) = (n \<noteq> 0)"
| "truthy JNaN = False"
| "truthy (JStr s) = (s \<noteq> [])"

text \<open>\<open>a || b\<close> and \<open>a ?? null\<close>.\<close>

definition js_or :: "jsval \<Rightarrow> jsval \<Rightarrow> jsval" where
  "js_or a b = (if truthy a then a else b)"

definition nullish_null :: "jsval \<Rightarrow> jsval" where
  "nullish_null a = (if a = JUndefined \<or> a = JNull then JNull else a)"

text \<open>
  A plain object whose properties hold primitives: the properties in insertion order.
  Reading a property that is not there gives \<open>undefined\<close>; an assignment replaces the value
  in place or appends the key.
\<close>

type_synonym obj = "(string \<times> jsval) list"

definition js_get :: "obj \<Rightarrow> string \<Rightarrow> jsval" where
  "js_get ob k = (case map_of ob k of None \<Rightarrow> JUndefined | Some v \<Rightarrow> v)"

text \<open>The three credit bureaus: every per-bureau structure of the program is a triple.\<close>

record 'a bureaus =
  transunion :: 'a
  experian :: 'a
  equifax :: 'a

text \<open>
  An object literal whose property values may throw: the values are evaluated in source
  order and the first exception leaves the literal.
\<close>

fun build_obj :: "(string \<times> (js_error + 'v)) list \<Rightarrow> js_error + (string \<times> 'v) list" where
  "build_obj [] = Inr []"
| "build_obj ((k, Inl e) # r) = Inl e"
| "build_obj ((k, Inr v) # r) =
     (case build_obj r of Inl e \<Rightarrow> Inl e | Inr ob \<Rightarrow> Inr ((k, v) # ob))"

definition build_bureaus ::
  "(js_error + 'v) \<Rightarrow> (js_error + 'v) \<Rightarrow> (js_error + 'v) \<Rightarrow> js_error + 'v bureaus" where
  "build_bureaus t x q =
     (case t of Inl e \<Rightarrow> Inl e | Inr tv \<Rightarrow>
      (case x of Inl e \<Rightarrow> Inl e | Inr xv \<Rightarrow>
       (case q of Inl e \<Rightarrow> Inl e | Inr qv \<Rightarrow>
          Inr \<lparr>transunion = tv, experian = xv, equifax = qv\<rparr>)))"

subsection \<open>Characters\<close>

definition is_digit :: "char \<Rightarrow> bool" where
  "is_digit c = (c \<in> set ''0123456789'')"

text \<open>White space and line terminators: what \<open>trim\<close> removes and \<open>\s\<close> matches.\<close>

definition is_space :: "char \<Rightarrow> bool" where
  "is_space c = (c \<in> {CHR 0x09, CHR 0x0A, CHR 0x0B, CHR 0x0C, CHR 0x0D, CHR 0x20, CHR 0xA0})"

definition digit_val :: "char \<Rightarrow> nat" where
  "digit_val c = of_char c - 48"

definition digits_val :: "string \<Rightarrow> nat" where
  "digits_val ds = fold (\<lambda>c n. 10 * n + digit_val c) ds 0"

definition trim :: "string \<Rightarrow> string" where
  "trim s = rev (dropWhile is_space (rev (dropWhile is_space s)))"

definition to_upper :: "char \<Rightarrow> char" where
  "to_upper c =
     (case map_of (zip ''abcdefghijklmnopqrstuvwxyz'' ''ABCDEFGHIJKLMNOPQRSTUVWXYZ'') c of
        None \<Rightarrow> c | Some u \<Rightarrow> u)"

text \<open>\<open>padStart(2, '0')\<close>.\<close>

definition padStart2 :: "string \<Rightarrow> string" where
  "padStart2 s = replicate (2 - length s) CHR ''0'' @ s"

text \<open>\<open>String.prototype.includes\<close>: the needle occurs as a substring.\<close>

fun str_includes :: "string \<Rightarrow> string \<Rightarrow> bool" where
  "str_includes [] needle = (needle = [])"
| "str_includes (c # cs) needle =
     (take (length needle) (c # cs) = needle \<or> str_includes cs needle)"

section \<open>Regular expressions\<close>

text \<open>
  The patterns of the transform library are sequences of single characters and of
  repeated character classes, some of them captured. \<open>Chr p\<close> matches one character in
  \<open>p\<close>; \<open>Rep cap p lo hi greedy\<close> matches between \<open>lo\<close> and \<open>hi\<close> characters in \<open>p\<close>
  (no upper bound for \<open>None\<close>), tried longest first when greedy and shortest first when
  lazy, and records the matched text when \<open>cap\<close>. Matching backtracks as the JavaScript
  engine does: a repetition gives characters back until the rest of the pattern matches.
\<close>

datatype rxitem = Chr "char \<Rightarrow> bool" | Rep bool "char \<Rightarrow> bool" nat "nat option" bool

text \<open>The first alternative that succeeds.\<close>

fun first_some :: "'b option list \<Rightarrow> 'b option" where
  "first_some [] = None"
| "first_some (None # xs) = first_some xs"
| "first_some (Some y # xs) = Some y"

text \<open>The match of a pattern at the start of a string: the captures, in order.\<close>

fun rx_from :: "rxitem list \<Rightarrow> string \<Rightarrow> string list option" where
  "rx_from [] s = Some []"
| "rx_from (Chr p # r) s =
     (case s of [] \<Rightarrow> None | c # cs \<Rightarrow> if p c then rx_from r cs else None)"
| "rx_from (Rep cap p lo hi greedy # r) s =
     (let avail = length (takeWhile p s);
          most = (case hi of None \<Rightarrow> avail | Some h \<Rightarrow> min h avail);
          counts = (if greedy then rev [lo..<Suc most] else [lo..<Suc most])
      in first_some
           (map (\<lambda>k. map_option (\<lambda>caps. if cap then take k s # caps else caps)
                         (rx_from r (drop k s)))
              counts))"

text \<open>\<open>String.prototype.match\<close> without the global flag: the leftmost match.\<close>

fun rx_search :: "rxitem list \<Rightarrow> string \<Rightarrow> string list option" where
  "rx_search r [] = rx_from r []"
| "rx_search r (c # cs) =
     (case rx_from r (c # cs) of Some caps \<Rightarrow> Some caps | None \<Rightarrow> rx_search r cs)"

definition lit :: "string \<Rightarrow> rxitem list" where
  "lit s = map (\<lambda>p. Chr (\<lambda>c. c = p)) s"

text \<open>A literal under the \<open>i\<close> flag.\<close>

definition lit_ci :: "string \<Rightarrow> rxitem list" where
  "lit_ci s = map (\<lambda>p. Chr (\<lambda>c. to_upper c = to_upper p)) s"

text \<open>\<open>.\<close> matches everything but a line terminator.\<close>

definition rx_dot :: "char \<Rightarrow> bool" where
  "rx_dot c = (c \<noteq> CHR 0x0A \<and> c \<noteq> CHR 0x0D)"

abbreviation spaces1 :: rxitem where
  "spaces1 \<equiv> Rep False is_space 1 None True"

abbreviation digits1 :: rxitem where
  "digits1 \<equiv> Rep True is_digit 1 None True"

text \<open>\<open>/(\d{1,2})\/(\d{1,2})\/(\d{4})/\<close>\<close>

definition rx_date :: "rxitem list" where
  "rx_date =
     [Rep True is_digit 1 (Some 2) True] @ lit ''/'' @
     [Rep True is_digit 1 (Some 2) True] @ lit ''/'' @
     [Rep True is_digit 4 (Some 4) True]"

text \<open>\<open>/starting score was\s+(\d+)/i\<close>\<close>

definition rx_starting :: "rxitem list" where
  "rx_starting = lit_ci ''starting score was'' @ [spaces1, digits1]"

text \<open>\<open>/added\s+\+?(\d+)\s+pts/i\<close>\<close>

definition rx_added :: "rxitem list" where
  "rx_added =
     lit_ci ''added'' @ [spaces1, Rep False (\<lambda>c. c = CHR ''+'') 0 (Some 1) True, digits1, spaces1]
     @ lit_ci ''pts''"

text \<open>\<open>/\+(\d+)\s+pts/i\<close>\<close>

definition rx_boost :: "rxitem list" where
  "rx_boost = lit ''+'' @ [digits1, spaces1] @ lit_ci ''pts''"

text \<open>\<open>/increase.*?\+?(\d+)\s+pts/i\<close>\<close>

definition rx_increase :: "rxitem list" where
  "rx_increase =
     lit_ci ''increase'' @
     [Rep False rx_dot 0 None False, Rep False (\<lambda>c. c = CHR ''+'') 0 (Some 1) True,
      digits1, spaces1] @ lit_ci ''pts''"

text \<open>\<open>/decrease.*?-(\d+)\s+pts/i\<close>\<close>

definition rx_decrease :: "rxitem list" where
  "rx_decrease =
     lit_ci ''decrease'' @ [Rep False rx_dot 0 None False] @ lit ''-'' @ [digits1, spaces1]
     @ lit_ci ''pts''"

section \<open>Field Transform Library (utils/parser)\<close>

text \<open>
  \<open>parseFloat\<close> on the longest prefix that is a decimal literal: leading white space, one
  optional sign, digits, and a fraction after a dot; NaN when the prefix holds no digit.
  The exponent and \<open>Infinity\<close> forms of the literal are left out: \<open>extractNumber\<close>
  calls \<open>parseFloat\<close> on a string of digits, dots and signs only.
\<close>

definition unsigned_decimal :: "string \<Rightarrow> rat option" where
  "unsigned_decimal r =
     (let ip = takeWhile is_digit r;
          r1 = dropWhile is_digit r;
          fp = (case r1 of c # t \<Rightarrow> if c = CHR ''.'' then takeWhile is_digit t else [] | [] \<Rightarrow> [])
      in if ip = [] \<and> fp = [] then None
         else Some (of_nat (digits_val ip) + of_nat (digits_val fp) / 10 ^ length fp))"

definition parseFloat :: "string \<Rightarrow> jsval" where
  "parseFloat str =
     (case dropWhile is_space str of
        [] \<Rightarrow> JNaN
      | c # r \<Rightarrow>
          if c = CHR ''-'' then (case unsigned_decimal r of None \<Rightarrow> JNaN | Some v \<Rightarrow> JNum (- v))
          else if c = CHR ''+'' then (case unsigned_decimal r of None \<Rightarrow> JNaN | Some v \<Rightarrow> JNum v)
          else (case unsigned_decimal (c # r) of None \<Rightarrow> JNaN | Some v \<Rightarrow> JNum v))"

text \<open>\<open>parseInt\<close> of a captured run of digits.\<close>

definition parseInt_digits :: "string \<Rightarrow> rat" where
  "parseInt_digits ds = of_nat (digits_val ds)"

text \<open>The characters that \<open>replace(/[^\d.\-+]/g, '')\<close> keeps.\<close>

definition keeps :: "char \<Rightarrow> bool" where
  "keeps c = (is_digit c \<or> c = CHR ''.'' \<or> c = CHR ''-'' \<or> c = CHR ''+'')"

text \<open>
  The string branch of \<open>extractNumber\<close>: everything but digits, dots and signs is
  removed, the rest is parsed, and NaN becomes null.
\<close>

definition number_of_string :: "string \<Rightarrow> jsval" where
  "number_of_string str =
     (let cleaned = filter keeps str;
          num = parseFloat cleaned
      in if num = JNaN then JNull else num)"

text \<open>
  \<open>extractNumber\<close>. A number is returned as it is (null for NaN); any other value is
  converted by \<open>String(text)\<close>, which is the string itself for a string and the name of
  the value for a boolean, \<open>undefined\<close> and null.
\<close>

definition extractNumber :: "jsval \<Rightarrow> jsval" where
  "extractNumber text =
     (if \<not> truthy text \<and> text \<noteq> JNum 0 then JNull
      else case text of
        JNum n \<Rightarrow> JNum n
      | JNaN \<Rightarrow> JNull
      | JStr s \<Rightarrow> number_of_string s
      | JBool b \<Rightarrow> number_of_string (if b then ''true'' else ''false'')
      | JUndefined \<Rightarrow> number_of_string ''undefined''
      | JNull \<Rightarrow> number_of_string ''null'')"

definition parseScoreDate :: "jsval \<Rightarrow> js_error + jsval" where
  "parseScoreDate dateText =
     (if \<not> truthy dateText then Inr JNull
      else case dateText of
        JStr s \<Rightarrow>
          (case rx_search rx_date s of
             Some [month, day, year] \<Rightarrow>
               Inr (JStr (year @ ''-'' @ padStart2 month @ ''-'' @ padStart2 day))
           | _ \<Rightarrow> Inr JNull)
      | _ \<Rightarrow> Inl TypeError)"

text \<open>The first capture of a match, read by \<open>parseInt\<close>; null when there is no match.\<close>

definition capture_int :: "rxitem list \<Rightarrow> string \<Rightarrow> rat option" where
  "capture_int r s =
     (case rx_search r s of Some (c # cs) \<Rightarrow> Some (parseInt_digits c) | _ \<Rightarrow> None)"

definition num_or_null :: "rat option \<Rightarrow> jsval" where
  "num_or_null m = (case m of None \<Rightarrow> JNull | Some n \<Rightarrow> JNum n)"

definition parseScoreProgress :: "jsval \<Rightarrow> js_error + obj" where
  "parseScoreProgress text =
     (if \<not> truthy text then Inr [(''startingScore'', JNull), (''pointsGained'', JNull)]
      else case text of
        JStr s \<Rightarrow>
          Inr [(''startingScore'', num_or_null (capture_int rx_starting s)),
               (''pointsGained'', num_or_null (capture_int rx_added s))]
      | _ \<Rightarrow> Inl TypeError)"

definition parseBoostPotential :: "jsval \<Rightarrow> js_error + jsval" where
  "parseBoostPotential text =
     (if \<not> truthy text then Inr JNull
      else case text of
        JStr s \<Rightarrow> Inr (num_or_null (capture_int rx_boost s))
      | _ \<Rightarrow> Inl TypeError)"

definition parseScoreBoost :: "jsval \<Rightarrow> js_error + obj" where
  "parseScoreBoost text =
     (if \<not> truthy text then Inr [(''paymentBoost'', JNull), (''negativeImpact'', JNull)]
      else case text of
        JStr s \<Rightarrow>
          Inr [(''paymentBoost'', num_or_null (capture_int rx_increase s)),
               (''negativeImpact'', num_or_null (map_option uminus (capture_int rx_decrease s)))]
      | _ \<Rightarrow> Inl TypeError)"

definition cleanText :: "jsval \<Rightarrow> js_error + jsval" where
  "cleanText text =
     (if \<not> truthy text then Inr JNull
      else case text of
        JStr s \<Rightarrow>
          (let cleaned = trim s
           in Inr (if cleaned = ''--'' \<or> cleaned = [] then JNull else JStr cleaned))
      | _ \<Rightarrow> Inl TypeError)"

definition parse3BScores :: "jsval bureaus \<Rightarrow> jsval bureaus" where
  "parse3BScores rawScores =
     \<lparr>transunion = extractNumber (transunion rawScores),
      experian = extractNumber (experian rawScores),
      equifax = extractNumber (equifax rawScores)\<rparr>"

text \<open>
  The dashboard section. \<open>now\<close> is the reading of the clock
  (\<open>new Date().toISOString()\<close>) when the section is built.
\<close>

record dashboard =
  credit_score_info :: obj
  score_tracker :: obj
  score_builder :: obj
  score_boost :: obj
  future_score :: jsval
  dashboard_scraped_at :: string

definition buildCreditScoreData :: "obj \<Rightarrow> string \<Rightarrow> dashboard" where
  "buildCreditScoreData rawData now =
     \<lparr>credit_score_info =
        [(''current_score'', nullish_null (js_get rawData ''currentScore'')),
         (''score_date'', nullish_null (js_get rawData ''scoreDate'')),
         (''starting_score'', nullish_null (js_get rawData ''startingScore'')),
         (''points_gained'', nullish_null (js_get rawData ''pointsGained''))],
      score_tracker =
        [(''current_score'', nullish_null (js_get rawData ''currentScore'')),
         (''starting_score'', nullish_null (js_get rawData ''startingScore'')),
         (''points_added'', nullish_null (js_get rawData ''pointsGained''))],
      score_builder =
        [(''potential_boost'', nullish_null (js_get rawData ''scoreBuilderBoost'')),
         (''description'', JStr ''Taking action directly with the source'')],
      score_boost =
        [(''payment_boost'', nullish_null (js_get rawData ''paymentBoost'')),
         (''negative_impact'', nullish_null (js_get rawData ''negativeImpact'')),
         (''description'',
            js_or (js_get rawData ''scoreBoostDescription'') (JStr ''Payment and spending impact''))],
      future_score = nullish_null (js_get rawData ''futureScore''),
      dashboard_scraped_at = now\<rparr>"

definition parsePersonalInfo :: "obj \<Rightarrow> js_error + obj" where
  "parsePersonalInfo rawData =
     build_obj
       [(''credit_report_date'', cleanText (js_get rawData ''reportDate'')),
        (''name'', cleanText (js_get rawData ''name'')),
        (''date_of_birth'', cleanText (js_get rawData ''dob'')),
        (''current_address'', cleanText (js_get rawData ''currentAddress'')),
        (''previous_address'', cleanText (js_get rawData ''previousAddress'')),
        (''employer'', cleanText (js_get rawData ''employer''))]"

definition parse3BPersonalInfo :: "obj bureaus \<Rightarrow> js_error + obj bureaus" where
  "parse3BPersonalInfo rawData =
     build_bureaus (parsePersonalInfo (transunion rawData))
       (parsePersonalInfo (experian rawData)) (parsePersonalInfo (equifax rawData))"

definition parseSummary :: "obj \<Rightarrow> js_error + obj" where
  "parseSummary rawData =
     build_obj
       [(''total_accounts'',
           Inr (extractNumber (js_or (js_get rawData ''total_accounts'') (js_get rawData ''totalAccounts'')))),
        (''open_accounts'',
           Inr (extractNumber (js_or (js_get rawData ''open_accounts'') (js_get rawData ''openAccounts'')))),
        (''closed_accounts'',
           Inr (extractNumber (js_or (js_get rawData ''closed_accounts'') (js_get rawData ''closedAccounts'')))),
        (''delinquent'', Inr (extractNumber (js_get rawData ''delinquent''))),
        (''derogatory'', Inr (extractNumber (js_get rawData ''derogatory''))),
        (''balances'', cleanText (js_get rawData ''balances'')),
        (''payments'', cleanText (js_get rawData ''payments'')),
        (''public_records'', Inr (extractNumber (js_get rawData ''publicRecords''))),
        (''inquiries_2years'', Inr (extractNumber (js_get rawData ''inquiries'')))]"

definition parse3BSummary :: "obj bureaus \<Rightarrow> js_error + obj bureaus" where
  "parse3BSummary rawData =
     build_bureaus (parseSummary (transunion rawData))
       (parseSummary (experian rawData)) (parseSummary (equifax rawData))"

section \<open>The document, as the extractors read it\<close>

text \<open>
  The extractors read the live document through selector queries inside
  \<open>page.evaluate\<close>. An element is modelled by the results of the queries that the
  extractors make on it, in document order: a query for all matches is a list, a query
  for the first match is an option, and a cell is its \<open>textContent\<close>. The selector
  strings themselves are configuration and do not appear.
\<close>

text \<open>A grid: its column groups, each the text of its cells.\<close>

type_synonym grid = "string list list"

text \<open>
  One month of a payment history: the class tokens of the month element, and the text
  of its badge and of its label when it has one.
\<close>

record month_el =
  classList :: "string list"
  badge :: "string option"
  label :: "string option"

text \<open>
  A \<open>div\<close> inside an account container, as the days-late lookup reads it: the text of
  its first paragraph, and its days-late grid (the bureau columns, each with the values
  of its values grid when it has one).
\<close>

record dl_div =
  firstP :: "string option"
  dlGrid :: "string list option list option"

text \<open>
  An account container: the text of its name element, the bureau columns of its grid,
  the bureau blocks of its payment-history container (each with the month elements of
  its months container), and its \<open>div\<close>s.
\<close>

record account_container =
  nameEl :: "string option"
  accGrid :: "grid option"
  historyContainer :: "month_el list option list option"
  divs :: "dl_div list"

text \<open>
  A report section (\<open>section.mt-5\<close>): the text of its first \<open>h5\<close>, its four-column
  grids and its account containers.
\<close>

record section_el =
  heading :: "string option"
  grids :: "grid list"
  accountContainers :: "account_container list"

record page =
  mt5_sections :: "section_el list"

section \<open>Extractor configuration (config/extractors)\<close>

record field_config =
  cfg_fields :: "string list"

record grid_config = field_config +
  sectionIndex :: int
  gridIndex :: int

text \<open>
  The account-list configuration: the field names and the two nested selector groups.
  A group that is missing (\<open>undefined\<close>) is \<open>None\<close>.
\<close>

record account_config = field_config +
  paymentHistory :: "(string \<times> string) list option"
  daysLate :: "(string \<times> string) list option"

definition personalInfo_config :: grid_config where
  "personalInfo_config =
     \<lparr>cfg_fields = [''credit_report_date'', ''name'', ''date_of_birth'', ''current_address'',
                ''previous_address'', ''employer''],
      sectionIndex = 0, gridIndex = 0\<rparr>"

definition summary_config :: grid_config where
  "summary_config =
     \<lparr>cfg_fields = [''total_accounts'', ''open_accounts'', ''closed_accounts'', ''delinquent'',
                ''derogatory'', ''balances'', ''payments'', ''public_records'',
                ''inquiries_2years''],
      sectionIndex = 1, gridIndex = 0\<rparr>"

definition account_fields :: "string list" where
  "account_fields =
     [''account_number'', ''high_balance'', ''last_verified'', ''date_last_activity'',
      ''date_reported'', ''date_opened'', ''balance_owed'', ''closed_date'',
      ''account_rating'', ''account_description'', ''dispute_status'', ''creditor_type'',
      ''account_status'', ''payment_status'', ''creditor_remarks'', ''payment_amount'',
      ''last_payment'', ''term_length'', ''past_due_amount'', ''account_type'',
      ''payment_frequency'', ''credit_limit'']"

definition accountHistory_config :: account_config where
  "accountHistory_config =
     \<lparr>cfg_fields = account_fields,
      paymentHistory =
        Some [(''containerSelector'', ''div.mt-3.p-1.fs-12''),
              (''bureauHistorySelector'', ''div.d-flex.flex-wrap.payment-history''),
              (''bureauLabelSelector'', ''p.payment-history-heading''),
              (''monthContainerSelector'', ''div.d-flex.gap-1.flex-wrap.flex-1''),
              (''monthSelector'', ''div[class^=status-]''),
              (''badgeSelector'', ''p.month-badge''),
              (''labelSelector'', ''p.month-label'')],
      daysLate =
        Some [(''gridSelector'', ''div.d-grid.grid-cols-3''),
              (''bureauSelector'', ''div.border-right.border-color-gray-600''),
              (''bureauLabelSelector'', ''p.fw-bold.px-1.mb-1''),
              (''valuesGridSelector'', ''div.d-grid.grid-cols-3.bg-gray-100.text-center.py-1''),
              (''valueSelector'', ''p span'')]\<rparr>"

section \<open>Grid extractor (utils/extractors/grid-extractor)\<close>

text \<open>\<open>xs[i]\<close>: \<open>undefined\<close> out of range.\<close>

definition nth_opt :: "'a list \<Rightarrow> nat \<Rightarrow> 'a option" where
  "nth_opt xs i = (if i < length xs then Some (xs ! i) else None)"

text \<open>\<open>x || null\<close> for a string that may be \<open>undefined\<close>.\<close>

definition text_or_null :: "string option \<Rightarrow> jsval" where
  "text_or_null t = (case t of None \<Rightarrow> JNull | Some s \<Rightarrow> if s = [] then JNull else JStr s)"

text \<open>The data cells of a bureau column: the header cell is skipped, the rest trimmed.\<close>

definition extractBureauData :: "grid \<Rightarrow> nat \<Rightarrow> string list" where
  "extractBureauData bureauColumns columnIndex = map trim (drop 1 (bureauColumns ! columnIndex))"

text \<open>
  The function run in the page. A negative index passes the range check, reads
  \<open>undefined\<close> and throws on the next property access.
\<close>

definition grid_evaluate :: "page \<Rightarrow> int \<Rightarrow> int \<Rightarrow> js_error + string list bureaus option" where
  "grid_evaluate pg si gi =
     (let sections = mt5_sections pg in
      if sections = [] then Inr None
      else if si \<ge> int (length sections) then Inr None
      else if si < 0 then Inl TypeError
      else
        let gs = grids (sections ! nat si) in
        if gs = [] then Inr None
        else if gi \<ge> int (length gs) then Inr None
        else if gi < 0 then Inl TypeError
        else
          let bureauColumns = gs ! nat gi in
          if length bureauColumns < 4 then Inr None
          else Inr (Some \<lparr>transunion = extractBureauData bureauColumns 1,
                           experian = extractBureauData bureauColumns 2,
                           equifax = extractBureauData bureauColumns 3\<rparr>))"

definition mapFieldsToObject :: "string list \<Rightarrow> string list \<Rightarrow> obj" where
  "mapFieldsToObject fs dataArray =
     fold (\<lambda>(index, fieldName) ob.
             AList.update fieldName (text_or_null (nth_opt dataArray index)) ob)
          (enumerate 0 fs) []"

text \<open>The result is null when the page function returns null and when anything throws.\<close>

definition extractGridData :: "page \<Rightarrow> grid_config \<Rightarrow> obj bureaus option" where
  "extractGridData pg config =
     (case grid_evaluate pg (sectionIndex config) (gridIndex config) of
        Inl e \<Rightarrow> None
      | Inr None \<Rightarrow> None
      | Inr (Some rawData) \<Rightarrow>
          Some \<lparr>transunion = mapFieldsToObject (cfg_fields config) (transunion rawData),
                experian = mapFieldsToObject (cfg_fields config) (experian rawData),
                equifax = mapFieldsToObject (cfg_fields config) (equifax rawData)\<rparr>)"

section \<open>Account-list extractor (utils/extractors/account-extractor)\<close>

record month_entry =
  month :: string
  status :: string
  status_class :: string

type_synonym payment_history_t = "month_entry list bureaus"

type_synonym days_late_t = "obj bureaus"

text \<open>
  An account: the display name, the field map of each bureau, and the two optional
  nested structures (\<open>None\<close> is null). The same shape leaves the extractor and enters
  and leaves the Report Builder; a bureau map that is missing or null is \<open>None\<close>.
\<close>

record account = "obj option bureaus" +
  account_name :: jsval
  payment_history :: "payment_history_t option"
  days_late :: "days_late_t option"

text \<open>The decimal numeral of a natural number, for \<open>`Unknown Account ${idx + 1}`\<close>.\<close>

fun string_of_nat :: "nat \<Rightarrow> string" where
  "string_of_nat n =
     (if n < 10 then [''0123456789'' ! n]
      else string_of_nat (n div 10) @ [''0123456789'' ! (n mod 10)])"

text \<open>
  The status class of a month element: the first class token that starts with
  \<open>status-\<close>, without that prefix; \<open>unknown\<close> when there is none or nothing follows it.
\<close>

definition statusClass :: "string list \<Rightarrow> string" where
  "statusClass classes =
     (case find (\<lambda>cls. take 7 cls = ''status-'') classes of
        None \<Rightarrow> ''unknown''
      | Some cls \<Rightarrow> if drop 7 cls = [] then ''unknown'' else drop 7 cls)"

definition extractMonthBadges :: "month_el list option \<Rightarrow> month_entry list" where
  "extractMonthBadges bureauHistory =
     (case bureauHistory of
        None \<Rightarrow> []
      | Some months \<Rightarrow>
          map (\<lambda>monthDiv.
                 \<lparr>month = (case label monthDiv of None \<Rightarrow> [] | Some t \<Rightarrow> trim t),
                  status = (case badge monthDiv of None \<Rightarrow> [] | Some t \<Rightarrow> trim t),
                  status_class = statusClass (classList monthDiv)\<rparr>)
              months)"

text \<open>
  Null when the history container is missing or holds fewer than three bureau blocks.
  Reading a selector of a missing configuration group throws.
\<close>

definition extractPaymentHistory ::
  "account_container \<Rightarrow> (string \<times> string) list option \<Rightarrow> js_error + payment_history_t option" where
  "extractPaymentHistory container phConfig =
     (case phConfig of
        None \<Rightarrow> Inl TypeError
      | Some sel \<Rightarrow>
          (case historyContainer container of
             None \<Rightarrow> Inr None
           | Some bureauHistories \<Rightarrow>
               if length bureauHistories < 3 then Inr None
               else Inr (Some \<lparr>transunion = extractMonthBadges (bureauHistories ! 0),
                                experian = extractMonthBadges (bureauHistories ! 1),
                                equifax = extractMonthBadges (bureauHistories ! 2)\<rparr>)))"

text \<open>\<open>x || '0'\<close> for a trimmed text that may be \<open>undefined\<close>.\<close>

definition text_or_zero :: "string option \<Rightarrow> jsval" where
  "text_or_zero t =
     (case t of None \<Rightarrow> JStr ''0'' | Some s \<Rightarrow> if trim s = [] then JStr ''0'' else JStr (trim s))"

definition extractBureauDaysLate :: "string list option \<Rightarrow> obj" where
  "extractBureauDaysLate bureauColumn =
     (case bureauColumn of
        None \<Rightarrow> [(''30'', JNull), (''60'', JNull), (''90'', JNull)]
      | Some vals \<Rightarrow>
          [(''30'', text_or_zero (nth_opt vals 0)),
           (''60'', text_or_zero (nth_opt vals 1)),
           (''90'', text_or_zero (nth_opt vals 2))])"

definition extractDaysLate ::
  "account_container \<Rightarrow> (string \<times> string) list option \<Rightarrow> js_error + days_late_t option" where
  "extractDaysLate container dlConfig =
     (case find (\<lambda>d. case firstP d of
                        None \<Rightarrow> False
                      | Some t \<Rightarrow> str_includes t ''Days Late - 7 Year History'')
                (divs container) of
        None \<Rightarrow> Inr None
      | Some daysLateSection \<Rightarrow>
          (case dlConfig of
             None \<Rightarrow> Inl TypeError
           | Some sel \<Rightarrow>
               (case dlGrid daysLateSection of
                  None \<Rightarrow> Inr None
                | Some bureauColumns \<Rightarrow>
                    if length bureauColumns < 3 then Inr None
                    else Inr (Some \<lparr>transunion = extractBureauDaysLate (bureauColumns ! 0),
                                     experian = extractBureauDaysLate (bureauColumns ! 1),
                                     equifax = extractBureauDaysLate (bureauColumns ! 2)\<rparr>))))"

text \<open>The field map of one bureau column of an account grid.\<close>

definition accountBureauData :: "string list \<Rightarrow> grid \<Rightarrow> nat \<Rightarrow> obj" where
  "accountBureauData fs bureauColumns columnIndex =
     (let cellsArray = drop 1 (bureauColumns ! columnIndex)
      in fold (\<lambda>(fieldIdx, fieldName) data.
                 AList.update fieldName
                   (text_or_null (map_option trim (nth_opt cellsArray fieldIdx))) data)
              (enumerate 0 fs) [])"

definition accountName :: "account_container \<Rightarrow> nat \<Rightarrow> string" where
  "accountName container idx =
     (case nameEl container of
        None \<Rightarrow> ''Unknown Account '' @ string_of_nat (idx + 1)
      | Some t \<Rightarrow> if trim t = [] then ''Unknown Account '' @ string_of_nat (idx + 1) else trim t)"

text \<open>
  The body of the loop over the account containers: \<open>None\<close> when the container is
  skipped (no grid, or fewer than four column groups), else the account that is pushed.
  An exception of either nested extraction is caught and leaves null in its place.
\<close>

definition processContainer :: "account_config \<Rightarrow> nat \<Rightarrow> account_container \<Rightarrow> account option" where
  "processContainer cfg idx container =
     (case accGrid container of
        None \<Rightarrow> None
      | Some bureauColumns \<Rightarrow>
          if length bureauColumns < 4 then None
          else Some
            \<lparr>transunion = Some (accountBureauData (cfg_fields cfg) bureauColumns 1),
             experian = Some (accountBureauData (cfg_fields cfg) bureauColumns 2),
             equifax = Some (accountBureauData (cfg_fields cfg) bureauColumns 3),
             account_name = JStr (accountName container idx),
             payment_history =
               (case extractPaymentHistory container (paymentHistory cfg) of
                  Inl err \<Rightarrow> None | Inr h \<Rightarrow> h),
             days_late =
               (case extractDaysLate container (daysLate cfg) of
                  Inl err \<Rightarrow> None | Inr d \<Rightarrow> d)\<rparr>)"

text \<open>
  The Account History section: the first section whose heading contains the title,
  else the third section when there are at least three.
\<close>

definition accountHistorySection :: "page \<Rightarrow> section_el option" where
  "accountHistorySection pg =
     (case find (\<lambda>sec. case heading sec of
                          None \<Rightarrow> False
                        | Some h \<Rightarrow> str_includes h ''Account History'')
                (mt5_sections pg) of
        Some sec \<Rightarrow> Some sec
      | None \<Rightarrow> if length (mt5_sections pg) \<ge> 3 then Some (mt5_sections pg ! 2) else None)"

definition extractAccountHistory :: "page \<Rightarrow> account_config \<Rightarrow> account list" where
  "extractAccountHistory pg cfg =
     (case accountHistorySection pg of
        None \<Rightarrow> []
      | Some sec \<Rightarrow>
          List.map_filter (\<lambda>(idx, container). processContainer cfg idx container)
            (enumerate 0 (accountContainers sec)))"

subsection \<open>Pagination\<close>

text \<open>\<open>Array.prototype.slice(start, end)\<close>: a negative bound counts from the end.\<close>

definition js_slice :: "'a list \<Rightarrow> int \<Rightarrow> int \<Rightarrow> 'a list" where
  "js_slice xs start fin =
     (let len = int (length xs);
          k = (if start < 0 then max (len + start) 0 else min start len);
          final = (if fin < 0 then max (len + fin) 0 else min fin len)
      in take (nat (final - k)) (drop (nat k) xs))"

text \<open>The pagination options: a key that is not given is \<open>None\<close>.\<close>

record pagination_options =
  opt_limit :: "int option"
  opt_offset :: "int option"

record window =
  limit :: int
  offset :: int

record pagination = window +
  total :: nat
  hasMore :: bool

record paginated = pagination +
  accounts :: "account list"

definition extractAccountHistoryPaginated ::
  "page \<Rightarrow> account_config \<Rightarrow> pagination_options \<Rightarrow> paginated" where
  "extractAccountHistoryPaginated pg config opts =
     (let lmt = (case opt_limit opts of None \<Rightarrow> 20 | Some l \<Rightarrow> l);
          ofs = (case opt_offset opts of None \<Rightarrow> 0 | Some k \<Rightarrow> k);
          allAccounts = extractAccountHistory pg config;
          tot = length allAccounts;
          paginatedAccounts = js_slice allAccounts ofs (ofs + lmt)
      in \<lparr>limit = lmt, offset = ofs, total = tot, hasMore = (ofs + lmt < int tot),
          accounts = paginatedAccounts\<rparr>)"

section \<open>Extraction Orchestrator (services/extraction-service)\<close>

text \<open>
  The raw sections. Every key is optional: \<open>None\<close> is a key that was never assigned,
  \<open>Some None\<close> is null and \<open>Some (Some v)\<close> a value. The pagination and the dashboard
  scores are objects when they are there.
\<close>

record inquiries_t =
  inquiries_count :: "jsval bureaus option"
  details :: "obj list"

record raw3BData =
  scores :: "jsval bureaus option option"
  personalInfo :: "obj bureaus option option"
  summary :: "obj bureaus option option"
  accountHistory :: "account list option option"
  accountHistoryPagination :: "pagination option"
  publicRecords :: "jsval bureaus option option"
  inquiries :: "inquiries_t option option"
  creditorContacts :: "obj list option option"
  dashboardScores :: "obj option"

definition empty_raw3BData :: raw3BData where
  "empty_raw3BData =
     \<lparr>scores = None, personalInfo = None, summary = None, accountHistory = None,
      accountHistoryPagination = None, publicRecords = None, inquiries = None,
      creditorContacts = None, dashboardScores = None\<rparr>"

text \<open>
  The extractors that the orchestrator calls, each with what it returns or throws on a
  page. They are parameters, so that an extractor can be one that fails; the grid and
  account-list extractors above are the ones the service is built with.
\<close>

record 'p extractors =
  call_extractScores :: "'p \<Rightarrow> js_error + jsval bureaus option"
  call_extractGridData :: "'p \<Rightarrow> grid_config \<Rightarrow> js_error + obj bureaus option"
  call_extractSummaryDetails :: "'p \<Rightarrow> js_error + obj bureaus option"
  call_extractAccountHistory :: "'p \<Rightarrow> account_config \<Rightarrow> js_error + account list"
  call_extractAccountHistoryPaginated ::
    "'p \<Rightarrow> account_config \<Rightarrow> pagination_options \<Rightarrow> js_error + paginated"
  call_extractPublicRecords :: "'p \<Rightarrow> js_error + jsval bureaus option"
  call_extractInquiries :: "'p \<Rightarrow> js_error + inquiries_t option"
  call_extractCreditorContacts :: "'p \<Rightarrow> js_error + obj list"

record options =
  sections :: "string list option"
  accountHistoryOptions :: "pagination_options option"

text \<open>\<open>shouldExtractAll || sections.includes(name)\<close>, with the default \<open>['all']\<close>.\<close>

definition requested :: "options \<Rightarrow> string \<Rightarrow> bool" where
  "requested opts name =
     (let secs = (case sections opts of None \<Rightarrow> [''all''] | Some l \<Rightarrow> l)
      in ''all'' \<in> set secs \<or> name \<in> set secs)"

text \<open>\<open>{...a, ...b}\<close>\<close>

definition spread :: "obj \<Rightarrow> obj \<Rightarrow> obj" where
  "spread a b = fold (\<lambda>(k, v) ob. AList.update k v ob) b a"

definition mergeSummary :: "obj bureaus \<Rightarrow> obj bureaus \<Rightarrow> obj bureaus" where
  "mergeSummary s d =
     \<lparr>transunion = spread (transunion s) (transunion d),
      experian = spread (experian s) (experian d),
      equifax = spread (equifax s) (equifax d)\<rparr>"

definition step_scores :: "'p extractors \<Rightarrow> 'p \<Rightarrow> options \<Rightarrow> raw3BData \<Rightarrow> raw3BData" where
  "step_scores E pg opts raw =
     (if requested opts ''scores'' then
        (case call_extractScores E pg of
           Inr v \<Rightarrow> raw\<lparr>scores := Some v\<rparr>
         | Inl err \<Rightarrow> raw\<lparr>scores := Some None\<rparr>)
      else raw)"

definition step_personalInfo :: "'p extractors \<Rightarrow> 'p \<Rightarrow> options \<Rightarrow> raw3BData \<Rightarrow> raw3BData" where
  "step_personalInfo E pg opts raw =
     (if requested opts ''personalInfo'' then
        (case call_extractGridData E pg personalInfo_config of
           Inr v \<Rightarrow> raw\<lparr>personalInfo := Some v\<rparr>
         | Inl err \<Rightarrow> raw\<lparr>personalInfo := Some None\<rparr>)
      else raw)"

text \<open>
  Summary: the grid, then the three account counters, merged bureau by bureau when both
  reads gave a value. An exception of either read leaves null.
\<close>

definition step_summary :: "'p extractors \<Rightarrow> 'p \<Rightarrow> options \<Rightarrow> raw3BData \<Rightarrow> raw3BData" where
  "step_summary E pg opts raw =
     (if requested opts ''summary'' then
        (case call_extractGridData E pg summary_config of
           Inl err \<Rightarrow> raw\<lparr>summary := Some None\<rparr>
         | Inr s \<Rightarrow>
             (case call_extractSummaryDetails E pg of
                Inl err \<Rightarrow> raw\<lparr>summary := Some None\<rparr>
              | Inr d \<Rightarrow>
                  (case (d, s) of
                     (Some dv, Some sv) \<Rightarrow> raw\<lparr>summary := Some (Some (mergeSummary sv dv))\<rparr>
                   | _ \<Rightarrow> raw\<lparr>summary := Some s\<rparr>)))
      else raw)"

text \<open>
  Account History: paginated when a limit is given. An exception leaves the empty list.
\<close>

definition step_accountHistory :: "'p extractors \<Rightarrow> 'p \<Rightarrow> options \<Rightarrow> raw3BData \<Rightarrow> raw3BData" where
  "step_accountHistory E pg opts raw =
     (if requested opts ''accountHistory'' then
        (let ahOptions = (case accountHistoryOptions opts of
                            None \<Rightarrow> \<lparr>opt_limit = None, opt_offset = None\<rparr>
                          | Some ao \<Rightarrow> ao);
             usePagination = (opt_limit ahOptions \<noteq> None)
         in if usePagination then
              (case call_extractAccountHistoryPaginated E pg accountHistory_config ahOptions of
                 Inr paginatedResult \<Rightarrow>
                   raw\<lparr>accountHistory := Some (Some (accounts paginatedResult)),
                       accountHistoryPagination :=
                         Some \<lparr>limit = limit paginatedResult, offset = offset paginatedResult,
                               total = total paginatedResult,
                               hasMore = hasMore paginatedResult\<rparr>\<rparr>
               | Inl err \<Rightarrow> raw\<lparr>accountHistory := Some (Some [])\<rparr>)
            else
              (case call_extractAccountHistory E pg accountHistory_config of
                 Inr v \<Rightarrow> raw\<lparr>accountHistory := Some (Some v)\<rparr>
               | Inl err \<Rightarrow> raw\<lparr>accountHistory := Some (Some [])\<rparr>))
      else raw)"

definition step_publicRecords :: "'p extractors \<Rightarrow> 'p \<Rightarrow> options \<Rightarrow> raw3BData \<Rightarrow> raw3BData" where
  "step_publicRecords E pg opts raw =
     (if requested opts ''publicRecords'' then
        (case call_extractPublicRecords E pg of
           Inr v \<Rightarrow> raw\<lparr>publicRecords := Some v\<rparr>
         | Inl err \<Rightarrow> raw\<lparr>publicRecords := Some None\<rparr>)
      else raw)"

definition step_inquiries :: "'p extractors \<Rightarrow> 'p \<Rightarrow> options \<Rightarrow> raw3BData \<Rightarrow> raw3BData" where
  "step_inquiries E pg opts raw =
     (if requested opts ''inquiries'' then
        (case call_extractInquiries E pg of
           Inr v \<Rightarrow> raw\<lparr>inquiries := Some v\<rparr>
         | Inl err \<Rightarrow> raw\<lparr>inquiries := Some None\<rparr>)
      else raw)"

definition step_creditorContacts :: "'p extractors \<Rightarrow> 'p \<Rightarrow> options \<Rightarrow> raw3BData \<Rightarrow> raw3BData" where
  "step_creditorContacts E pg opts raw =
     (if requested opts ''creditorContacts'' then
        (case call_extractCreditorContacts E pg of
           Inr v \<Rightarrow> raw\<lparr>creditorContacts := Some (Some v)\<rparr>
         | Inl err \<Rightarrow> raw\<lparr>creditorContacts := Some (Some [])\<rparr>)
      else raw)"

text \<open>The seven blocks of \<open>extractAll3BReport\<close>, in source order, on \<open>raw3BData = {}\<close>.\<close>

definition extractAll3BReport :: "'p extractors \<Rightarrow> 'p \<Rightarrow> options \<Rightarrow> raw3BData" where
  "extractAll3BReport E pg opts =
     step_creditorContacts E pg opts
       (step_inquiries E pg opts
         (step_publicRecords E pg opts
           (step_accountHistory E pg opts
             (step_summary E pg opts
               (step_personalInfo E pg opts
                 (step_scores E pg opts empty_raw3BData))))))"

text \<open>
  The service as the repository builds it: the grid and account-list extractors are the
  ones modelled above, which catch their own exceptions; the other reads are given.
\<close>

definition service_extractors ::
  "(page \<Rightarrow> js_error + jsval bureaus option) \<Rightarrow> (page \<Rightarrow> js_error + obj bureaus option) \<Rightarrow>
   (page \<Rightarrow> js_error + jsval bureaus option) \<Rightarrow> (page \<Rightarrow> js_error + inquiries_t option) \<Rightarrow>
   (page \<Rightarrow> js_error + obj list) \<Rightarrow> page extractors" where
  "service_extractors sc sd pr iq cc =
     \<lparr>call_extractScores = sc,
      call_extractGridData = (\<lambda>pg cfg. Inr (extractGridData pg cfg)),
      call_extractSummaryDetails = sd,
      call_extractAccountHistory = (\<lambda>pg cfg. Inr (extractAccountHistory pg cfg)),
      call_extractAccountHistoryPaginated =
        (\<lambda>pg cfg ao. Inr (extractAccountHistoryPaginated pg cfg ao)),
      call_extractPublicRecords = pr,
      call_extractInquiries = iq,
      call_extractCreditorContacts = cc\<rparr>"

section \<open>Report Builder (services/report-builder)\<close>

text \<open>\<open>ReportBuilder.cleanText\<close> and \<open>ReportBuilder.parseDate\<close>.\<close>

definition rb_cleanText :: "jsval \<Rightarrow> js_error + jsval" where
  "rb_cleanText text =
     (if \<not> truthy text \<or> text = JStr ''-'' \<or> text = JStr ''N/A'' \<or> text = JStr [] then Inr JNull
      else cleanText text)"

definition rb_parseDate :: "jsval \<Rightarrow> js_error + jsval" where
  "rb_parseDate dateStr =
     (if \<not> truthy dateStr \<or> dateStr = JStr ''-'' \<or> dateStr = JStr ''N/A'' then Inr JNull
      else parseScoreDate dateStr)"

definition parseAccountFields :: "obj option \<Rightarrow> js_error + obj option" where
  "parseAccountFields rawFields =
     (case rawFields of
        None \<Rightarrow> Inr None
      | Some rf \<Rightarrow>
          (case build_obj
             [(''account_number'', rb_cleanText (js_get rf ''account_number'')),
              (''high_balance'', rb_cleanText (js_get rf ''high_balance'')),
              (''last_verified'', rb_parseDate (js_get rf ''last_verified'')),
              (''date_last_activity'', rb_parseDate (js_get rf ''date_last_activity'')),
              (''date_reported'', rb_parseDate (js_get rf ''date_reported'')),
              (''date_opened'', rb_parseDate (js_get rf ''date_opened'')),
              (''balance_owed'', rb_cleanText (js_get rf ''balance_owed'')),
              (''closed_date'', rb_parseDate (js_get rf ''closed_date'')),
              (''account_rating'', rb_cleanText (js_get rf ''account_rating'')),
              (''account_description'', rb_cleanText (js_get rf ''account_description'')),
              (''dispute_status'', rb_cleanText (js_get rf ''dispute_status'')),
              (''creditor_type'', rb_cleanText (js_get rf ''creditor_type'')),
              (''account_status'', rb_cleanText (js_get rf ''account_status'')),
              (''payment_status'', rb_cleanText (js_get rf ''payment_status'')),
              (''creditor_remarks'', rb_cleanText (js_get rf ''creditor_remarks'')),
              (''payment_amount'', rb_cleanText (js_get rf ''payment_amount'')),
              (''last_payment'', rb_parseDate (js_get rf ''last_payment'')),
              (''term_length'', rb_cleanText (js_get rf ''term_length'')),
              (''past_due_amount'', rb_cleanText (js_get rf ''past_due_amount'')),
              (''account_type'', rb_cleanText (js_get rf ''account_type'')),
              (''payment_frequency'', rb_cleanText (js_get rf ''payment_frequency'')),
              (''credit_limit'', rb_cleanText (js_get rf ''credit_limit''))] of
             Inl e \<Rightarrow> Inl e
           | Inr ob \<Rightarrow> Inr (Some ob)))"

text \<open>The body of the \<open>try\<close> in \<open>parseAccountHistory\<close>, for one account.\<close>

definition parseAccount :: "account \<Rightarrow> js_error + account" where
  "parseAccount acct =
     (case rb_cleanText (account_name acct) of
        Inl e \<Rightarrow> Inl e
      | Inr name \<Rightarrow>
          (case build_bureaus (parseAccountFields (transunion acct))
                  (parseAccountFields (experian acct)) (parseAccountFields (equifax acct)) of
             Inl e \<Rightarrow> Inl e
           | Inr b \<Rightarrow>
               Inr \<lparr>transunion = transunion b, experian = experian b, equifax = equifax b,
                    account_name = name,
                    payment_history = payment_history acct,
                    days_late = days_late acct\<rparr>))"

text \<open>An account whose parsing throws is returned as it came.\<close>

definition parseAccountHistory :: "account list \<Rightarrow> account list" where
  "parseAccountHistory rawAccounts =
     (if rawAccounts = [] then []
      else map (\<lambda>acct. case parseAccount acct of Inr a \<Rightarrow> a | Inl e \<Rightarrow> acct) rawAccounts)"

text \<open>
  The report is an object: its keys in insertion order, each with its section value.
\<close>

datatype rval =
    RNull
  | RText string
  | RDashboard dashboard
  | RBureaus "jsval bureaus"
  | RGrid "obj bureaus"
  | RAccounts "account list"
  | RInquiries inquiries_t
  | RContacts "obj list"
  | RPagination pagination

type_synonym report = "(string \<times> rval) list"

record builder_options =
  includeDashboard :: "bool option"

definition buildDashboardSection :: "obj \<Rightarrow> string \<Rightarrow> dashboard" where
  "buildDashboardSection dashboardScores_v now = buildCreditScoreData dashboardScores_v now"

text \<open>
  \<open>buildFullReport\<close>. The clock is read when the dashboard section is built
  (\<open>now_dashboard\<close>) and again for \<open>scraped_at\<close> (\<open>now\<close>). The property values are
  evaluated in source order, so an exception of a section parser leaves the function.
  The pagination key is added only when the raw data carries it.
\<close>

definition buildFullReport ::
  "raw3BData \<Rightarrow> builder_options \<Rightarrow> string \<Rightarrow> string \<Rightarrow> js_error + report" where
  "buildFullReport rawData opts now_dashboard now =
     (let incl = (case includeDashboard opts of None \<Rightarrow> False | Some b \<Rightarrow> b) in
      case build_obj
        [(''dashboard_summary'',
            Inr (if incl then
                   (case dashboardScores rawData of
                      Some d \<Rightarrow> RDashboard (buildDashboardSection d now_dashboard)
                    | None \<Rightarrow> RNull)
                 else RNull)),
         (''credit_scores_3b'',
            Inr (case scores rawData of Some (Some v) \<Rightarrow> RBureaus v | _ \<Rightarrow> RNull)),
         (''personal_information'',
            (case personalInfo rawData of
               Some (Some v) \<Rightarrow>
                 (case parse3BPersonalInfo v of Inl e \<Rightarrow> Inl e | Inr r \<Rightarrow> Inr (RGrid r))
             | _ \<Rightarrow> Inr RNull)),
         (''summary'',
            (case summary rawData of
               Some (Some v) \<Rightarrow>
                 (case parse3BSummary v of Inl e \<Rightarrow> Inl e | Inr r \<Rightarrow> Inr (RGrid r))
             | _ \<Rightarrow> Inr RNull)),
         (''account_history'',
            Inr (case accountHistory rawData of
                   Some (Some v) \<Rightarrow> RAccounts (parseAccountHistory v)
                 | _ \<Rightarrow> RNull)),
         (''public_records'',
            Inr (case publicRecords rawData of Some (Some v) \<Rightarrow> RBureaus v | _ \<Rightarrow> RNull)),
         (''inquiries'',
            Inr (case inquiries rawData of Some (Some v) \<Rightarrow> RInquiries v | _ \<Rightarrow> RNull)),
         (''creditor_contacts'',
            Inr (case creditorContacts rawData of Some (Some v) \<Rightarrow> RContacts v | _ \<Rightarrow> RNull)),
         (''scraped_at'', Inr (RText now))] of
        Inl e \<Rightarrow> Inl e
      | Inr rep \<Rightarrow>
          Inr (case accountHistoryPagination rawData of
                 Some pg \<Rightarrow> rep @ [(''account_history_pagination'', RPagination pg)]
               | None \<Rightarrow> rep))"

section \<open>Notions of the specification\<close>





text \<open>A JavaScript string value.\<close>

fun is_text :: "jsval \<Rightarrow> bool" where
  "is_text (JStr s) = True"
| "is_text v = False"

text \<open>The field values that the Report Builder treats as absent.\<close>

definition absent_values :: "jsval list" where
  "absent_values = [JStr [], JStr ''-'', JStr ''N/A'', JStr ''--'', JUndefined, JNull]"

text \<open>
  An account container that the extractor can emit: it has a grid with at least four
  column groups. A payment history that is malformed: its container is missing, or holds
  fewer than three bureau blocks. The keys of a field map.
\<close>

definition usable_grid :: "account_container \<Rightarrow> bool" where
  "usable_grid c = (case accGrid c of None \<Rightarrow> False | Some g \<Rightarrow> 4 \<le> length g)"



text \<open>Pagination was asked for: the options carry a limit.\<close>

definition use_pagination :: "options \<Rightarrow> bool" where
  "use_pagination opts =
     (case accountHistoryOptions opts of None \<Rightarrow> False | Some ao \<Rightarrow> opt_limit ao \<noteq> None)"

text \<open>
  The keys that every report carries, in order. A report without its \<open>scraped_at\<close> key;
  a report with the time stamp inside its dashboard summary blanked; the value of a key
  of the report that a call returned.
\<close>

definition report_keys :: "string list" where
  "report_keys =
     [''dashboard_summary'', ''credit_scores_3b'', ''personal_information'', ''summary'',
      ''account_history'', ''public_records'', ''inquiries'', ''creditor_contacts'',
      ''scraped_at'']"




definition report_get :: "js_error + report \<Rightarrow> string \<Rightarrow> rval option" where
  "report_get r k = (case r of Inl e \<Rightarrow> None | Inr rep \<Rightarrow> map_of rep k)"

text \<open>The dashboard section is built: the option is set and the raw data carries the scores.\<close>

definition builds_dashboard :: "raw3BData \<Rightarrow> builder_options \<Rightarrow> bool" where
  "builds_dashboard rawData opts =
     (includeDashboard opts = Some True \<and> dashboardScores rawData \<noteq> None)"

text \<open>
  A value that \<open>cleanText\<close> accepts: a string or a falsy value. A raw bureau map of the
  Personal Information section, and one of the Summary section, whose text fields are
  such values; raw data whose Personal Information and Summary, when they are there,
  hold such maps.
\<close>

definition clean_ok :: "jsval \<Rightarrow> bool" where
  "clean_ok v = (is_text v \<or> \<not> truthy v)"

definition personal_ok :: "obj \<Rightarrow> bool" where
  "personal_ok b =
     list_all (\<lambda>k. clean_ok (js_get b k))
       [''reportDate'', ''name'', ''dob'', ''currentAddress'', ''previousAddress'', ''employer'']"

definition summary_ok :: "obj \<Rightarrow> bool" where
  "summary_ok b = list_all (\<lambda>k. clean_ok (js_get b k)) [''balances'', ''payments'']"

definition sections_parse :: "raw3BData \<Rightarrow> bool" where
  "sections_parse rawData =
     ((case personalInfo rawData of
         Some (Some v) \<Rightarrow>
           personal_ok (transunion v) \<and> personal_ok (experian v) \<and> personal_ok (equifax v)
       | _ \<Rightarrow> True) \<and>
      (case summary rawData of
         Some (Some v) \<Rightarrow>
           summary_ok (transunion v) \<and> summary_ok (experian v) \<and> summary_ok (equifax v)
       | _ \<Rightarrow> True))"

text \<open>A section of the raw data that is missing or null.\<close>

definition absent :: "'a option option \<Rightarrow> bool" where
  "absent s = (s = None \<or> s = Some None)"

text \<open>
  The section entries of a report, from the credit scores to the creditor contacts, and
  its pagination entry, as functions of the raw data whose sections parse.
\<close>

definition section_values :: "raw3BData \<Rightarrow> (string \<times> rval) list" where
  "section_values rawData =
     [(''credit_scores_3b'',
         (case scores rawData of Some (Some v) \<Rightarrow> RBureaus v | _ \<Rightarrow> RNull)),
      (''personal_information'',
         (case personalInfo rawData of
            Some (Some v) \<Rightarrow> RGrid (projr (parse3BPersonalInfo v)) | _ \<Rightarrow> RNull)),
      (''summary'',
         (case summary rawData of
            Some (Some v) \<Rightarrow> RGrid (projr (parse3BSummary v)) | _ \<Rightarrow> RNull)),
      (''account_history'',
         (case accountHistory rawData of
            Some (Some v) \<Rightarrow> RAccounts (parseAccountHistory v) | _ \<Rightarrow> RNull)),
      (''public_records'',
         (case publicRecords rawData of Some (Some v) \<Rightarrow> RBureaus v | _ \<Rightarrow> RNull)),
      (''inquiries'',
         (case inquiries rawData of Some (Some v) \<Rightarrow> RInquiries v | _ \<Rightarrow> RNull)),
      (''creditor_contacts'',
         (case creditorContacts rawData of Some (Some v) \<Rightarrow> RContacts v | _ \<Rightarrow> RNull))]"

definition pagination_entry :: "raw3BData \<Rightarrow> (string \<times> rval) list" where
  "pagination_entry rawData =
     (case accountHistoryPagination rawData of
        Some pg \<Rightarrow> [(''account_history_pagination'', RPagination pg)]
      | None \<Rightarrow> [])"

section \<open>Example documents\<close>

text \<open>
  A grid configuration with the single field \<open>transunion_field\<close>, and three documents
  with one section and one grid: one whose bureau columns hold a header cell and a score,
  one whose bureau columns hold the score alone, and one with five column groups.
\<close>

definition one_field_config :: grid_config where
  "one_field_config = \<lparr>cfg_fields = [''transunion_field''], sectionIndex = 0, gridIndex = 0\<rparr>"

definition score_page :: page where
  "score_page =
     \<lparr>mt5_sections =
        [\<lparr>heading = None,
          grids = [[[''Label''], [''TransUnion'', ''770''], [''Experian'', ''790''],
                    [''Equifax'', ''789'']]],
          accountContainers = []\<rparr>]\<rparr>"

definition bare_score_page :: page where
  "bare_score_page =
     \<lparr>mt5_sections =
        [\<lparr>heading = None,
          grids = [[[''Label''], [''770''], [''790''], [''789'']]],
          accountContainers = []\<rparr>]\<rparr>"

definition five_column_page :: page where
  "five_column_page =
     \<lparr>mt5_sections =
        [\<lparr>heading = None,
          grids = [[[''Label''], [''TransUnion'', ''a''], [''Experian'', ''b''],
                    [''Equifax'', ''c''], [''Extra'', ''d'']]],
          accountContainers = []\<rparr>]\<rparr>"

text \<open>The raw field map of one bureau of an account, and what the Report Builder makes of it.\<close>

definition sample_fields :: obj where
  "sample_fields = [(''account_number'', JStr ''123''), (''high_balance'', JStr ''N/A'')]"

definition sample_parsed_fields :: obj where
  "sample_parsed_fields =
     [(''account_number'', JStr ''123''), (''high_balance'', JNull), (''last_verified'', JNull),
      (''date_last_activity'', JNull), (''date_reported'', JNull), (''date_opened'', JNull),
      (''balance_owed'', JNull), (''closed_date'', JNull), (''account_rating'', JNull),
      (''account_description'', JNull), (''dispute_status'', JNull), (''creditor_type'', JNull),
      (''account_status'', JNull), (''payment_status'', JNull), (''creditor_remarks'', JNull),
      (''payment_amount'', JNull), (''last_payment'', JNull), (''term_length'', JNull),
      (''past_due_amount'', JNull), (''account_type'', JNull), (''payment_frequency'', JNull),
      (''credit_limit'', JNull)]"

text \<open>
  An Account History section with three account containers, the second with a single
  bureau block in its payment history; and one with 34 account containers.
\<close>

definition month_ok :: month_el where
  "month_ok = \<lparr>classList = [''status-C''], badge = Some ''OK'', label = Some ''Aug''\<rparr>"

definition four_columns :: grid where
  "four_columns =
     [[''Label''], [''TransUnion'', ''1001''], [''Experian'', ''1002''], [''Equifax'', ''1003'']]"

definition good_container :: "string \<Rightarrow> account_container" where
  "good_container name =
     \<lparr>nameEl = Some name, accGrid = Some four_columns,
      historyContainer = Some [Some [month_ok], Some [month_ok], Some [month_ok]],
      divs = []\<rparr>"




definition many_accounts_section :: section_el where
  "many_accounts_section =
     \<lparr>heading = Some ''Account History'', grids = [],
      accountContainers = replicate 34 (good_container ''Bank'')\<rparr>"

definition many_accounts_page :: page where
  "many_accounts_page = \<lparr>mt5_sections = [many_accounts_section]\<rparr>"

text \<open>
  Extractors for the section-isolation scenario: the grid read of the Personal
  Information section (section 0) and the Creditor Contacts read throw, and every other
  read succeeds. The page plays no role.
\<close>

definition sample_grid_result :: "obj bureaus" where
  "sample_grid_result =
     \<lparr>transunion = [(''balances'', JStr ''$50,000'')],
      experian = [(''balances'', JStr ''$50,000'')],
      equifax = [(''balances'', JStr ''$50,000'')]\<rparr>"

definition sample_scores :: "jsval bureaus" where
  "sample_scores = \<lparr>transunion = JNum 770, experian = JNum 790, equifax = JNum 789\<rparr>"

definition failing_personalInfo :: "unit extractors" where
  "failing_personalInfo =
     \<lparr>call_extractScores = (\<lambda>pg. Inr (Some sample_scores)),
      call_extractGridData =
        (\<lambda>pg cfg. if sectionIndex cfg = 0 then Inl (Error ''forced failure'')
                   else Inr (Some sample_grid_result)),
      call_extractSummaryDetails = (\<lambda>pg. Inr None),
      call_extractAccountHistory = (\<lambda>pg cfg. Inr []),
      call_extractAccountHistoryPaginated =
        (\<lambda>pg cfg ao. Inr \<lparr>limit = 20, offset = 0, total = 0, hasMore = False, accounts = []\<rparr>),
      call_extractPublicRecords = (\<lambda>pg. Inr (Some sample_scores)),
      call_extractInquiries = (\<lambda>pg. Inr (Some \<lparr>inquiries_count = None, details = []\<rparr>)),
      call_extractCreditorContacts = (\<lambda>pg. Inl (Error ''forced failure''))\<rparr>"

definition all_sections :: options where
  "all_sections = \<lparr>sections = None, accountHistoryOptions = None\<rparr>"

text \<open>
  Extractors whose Account History and Creditor Contacts reads throw; raw data that
  carries dashboard scores; and the option that includes the dashboard.
\<close>

definition failing_lists :: "unit extractors" where
  "failing_lists =
     \<lparr>call_extractScores = (\<lambda>pg. Inr (Some sample_scores)),
      call_extractGridData = (\<lambda>pg cfg. Inr None),
      call_extractSummaryDetails = (\<lambda>pg. Inr None),
      call_extractAccountHistory = (\<lambda>pg cfg. Inl (Error ''forced failure'')),
      call_extractAccountHistoryPaginated = (\<lambda>pg cfg ao. Inl (Error ''forced failure'')),
      call_extractPublicRecords = (\<lambda>pg. Inr None),
      call_extractInquiries = (\<lambda>pg. Inr None),
      call_extractCreditorContacts = (\<lambda>pg. Inl (Error ''forced failure''))\<rparr>"



definition default_options :: builder_options where
  "default_options = \<lparr>includeDashboard = None\<rparr>"

section \<open>Number extraction\<close>










lemmas number_eval =
  extractNumber_def number_of_string_def parseFloat_def unsigned_decimal_def keeps_def is_digit_def is_space_def
  digits_val_def digit_val_def




section \<open>The text transforms\<close>

lemma cleanText_throws: "isl (cleanText v) = (truthy v \<and> \<not> is_text v)"
  by (cases v) (simp_all add: cleanText_def Let_def)

lemma parseScoreDate_text: "\<exists>r. parseScoreDate (JStr s) = Inr r"
proof (cases "rx_search rx_date s")
  case None then show ?thesis by (simp add: parseScoreDate_def)
next
  case (Some caps)
  then show ?thesis
    by (cases caps rule: list.exhaust; simp add: parseScoreDate_def split: list.splits)
qed

lemma parseScoreDate_throws: "isl (parseScoreDate v) = (truthy v \<and> \<not> is_text v)"
proof (cases v)
  case (JStr s)
  then show ?thesis using parseScoreDate_text[of s] by auto
qed (simp_all add: parseScoreDate_def)

lemma parseScoreProgress_throws: "isl (parseScoreProgress v) = (truthy v \<and> \<not> is_text v)"
  by (cases v) (simp_all add: parseScoreProgress_def)

lemma parseBoostPotential_throws: "isl (parseBoostPotential v) = (truthy v \<and> \<not> is_text v)"
  by (cases v) (simp_all add: parseBoostPotential_def)

lemma parseScoreBoost_throws: "isl (parseScoreBoost v) = (truthy v \<and> \<not> is_text v)"
  by (cases v) (simp_all add: parseScoreBoost_def)

lemma parseFloat_range: "parseFloat s = JNaN \<or> (\<exists>n. parseFloat s = JNum n)"
  by (simp add: parseFloat_def split: list.splits option.splits)

lemma number_of_string_range: "number_of_string s = JNull \<or> (\<exists>n. number_of_string s = JNum n)"
  using parseFloat_range[of "filter keeps s"] by (auto simp: number_of_string_def Let_def)

lemma extractNumber_range: "extractNumber v = JNull \<or> (\<exists>n. extractNumber v = JNum n)"
proof (cases v)
  case (JStr s)
  then show ?thesis using number_of_string_range[of s] by (auto simp: extractNumber_def)
next
  case (JBool b)
  then show ?thesis
    using number_of_string_range[of "''true''"] by (auto simp: extractNumber_def)
qed (simp_all add: extractNumber_def)

lemma falsy_null:
  "\<not> truthy v \<Longrightarrow>
        parseScoreDate v = Inr JNull \<and> cleanText v = Inr JNull
        \<and> parseScoreProgress v = Inr [(''startingScore'', JNull), (''pointsGained'', JNull)]
        \<and> parseBoostPotential v = Inr JNull
        \<and> parseScoreBoost v = Inr [(''paymentBoost'', JNull), (''negativeImpact'', JNull)]"
  by (simp add: parseScoreDate_def cleanText_def parseScoreProgress_def parseBoostPotential_def parseScoreBoost_def)

text \<open>
  Claim C9, as amended. \<open>extractNumber\<close> returns a number or null on every primitive
  value. Each of \<open>parseScoreDate\<close>, \<open>cleanText\<close>, \<open>parseScoreProgress\<close>,
  \<open>parseBoostPotential\<close> and \<open>parseScoreBoost\<close> returns normally exactly on the strings
  and the falsy values (it throws on a truthy value that is not a string), and on a falsy
  value it returns null, or the record of nulls.
\<close>

theorem transforms_total_on_text:
  "(extractNumber v = JNull \<or> (\<exists>n. extractNumber v = JNum n))
   \<and> isl (parseScoreDate v) = (truthy v \<and> \<not> is_text v)
   \<and> isl (cleanText v) = (truthy v \<and> \<not> is_text v)
   \<and> isl (parseScoreProgress v) = (truthy v \<and> \<not> is_text v)
   \<and> isl (parseBoostPotential v) = (truthy v \<and> \<not> is_text v)
   \<and> isl (parseScoreBoost v) = (truthy v \<and> \<not> is_text v)
   \<and> (\<not> truthy v \<longrightarrow>
        parseScoreDate v = Inr JNull \<and> cleanText v = Inr JNull
        \<and> parseScoreProgress v = Inr [(''startingScore'', JNull), (''pointsGained'', JNull)]
        \<and> parseBoostPotential v = Inr JNull
        \<and> parseScoreBoost v = Inr [(''paymentBoost'', JNull), (''negativeImpact'', JNull)])"
  using extractNumber_range[of v] parseScoreDate_throws[of v] cleanText_throws[of v]
    parseScoreProgress_throws[of v] parseBoostPotential_throws[of v] parseScoreBoost_throws[of v]
    falsy_null[of v]
  by blast

text \<open>The theorem at the string \<open>"abc"\<close> and at \<open>undefined\<close>.\<close>

theorem transforms_total_on_text_witness:
  "\<not> isl (cleanText (JStr ''abc'')) \<and> \<not> isl (parseScoreDate (JStr ''abc''))
   \<and> \<not> isl (parseScoreProgress (JStr ''abc'')) \<and> \<not> isl (parseBoostPotential (JStr ''abc''))
   \<and> \<not> isl (parseScoreBoost (JStr ''abc''))
   \<and> cleanText JUndefined = Inr JNull \<and> parseScoreDate JUndefined = Inr JNull"
  using transforms_total_on_text[of "JStr ''abc''"] transforms_total_on_text[of JUndefined]
  by simp

text \<open>
  The claim as written covers every input value. A number or a boolean has no \<open>trim\<close>
  and no \<open>match\<close> method: the call throws a TypeError.
\<close>

theorem transforms_throw_counterexample:
  "cleanText (JNum 5) = Inl TypeError \<and> parseScoreDate (JNum 5) = Inl TypeError
   \<and> parseScoreProgress (JBool True) = Inl TypeError
   \<and> parseBoostPotential (JNum 5) = Inl TypeError
   \<and> parseScoreBoost (JBool True) = Inl TypeError"
  by (simp add: parseScoreDate_def cleanText_def parseScoreProgress_def parseBoostPotential_def parseScoreBoost_def)


section \<open>Absent values in the Report Builder\<close>

lemma build_obj_get:
  "build_obj kvs = Inr out \<Longrightarrow> map_of kvs k = Some (Inr v) \<Longrightarrow> map_of out k = Some v"
proof (induction kvs arbitrary: out)
  case Nil then show ?case by simp
next
  case (Cons kv kvs)
  obtain k' r where kv: "kv = (k', r)" by (cases kv)
  show ?case
  proof (cases r)
    case (Inl e) then show ?thesis using Cons.prems kv by simp
  next
    case (Inr w)
    then obtain ob where ob: "build_obj kvs = Inr ob" and out: "out = (k', w) # ob"
      using Cons.prems(1) kv by (auto split: sum.splits)
    show ?thesis
    proof (cases "k = k'")
      case True then show ?thesis using Cons.prems(2) kv Inr out by simp
    next
      case False then show ?thesis using Cons.IH[OF ob] Cons.prems(2) kv out by simp
    qed
  qed
qed

lemma date_dashes: "rx_search rx_date ''--'' = None"
  by code_simp

lemma trim_dashes: "trim ''--'' = ''--''" 
  by (simp add: trim_def is_space_def)

lemma parseScoreDate_dashes: "parseScoreDate (JStr ''--'') = Inr JNull"
  by (simp add: parseScoreDate_def date_dashes del: rx_search.simps)

lemma absent_null:
  "v \<in> set absent_values \<Longrightarrow> rb_cleanText v = Inr JNull \<and> rb_parseDate v = Inr JNull"
  unfolding absent_values_def
  by (auto simp: rb_cleanText_def rb_parseDate_def cleanText_def trim_dashes parseScoreDate_dashes)

lemma account_field_entry:
  assumes "f \<in> set account_fields"
  shows "map_of [(''account_number'', rb_cleanText (js_get rf ''account_number'')),
              (''high_balance'', rb_cleanText (js_get rf ''high_balance'')),
              (''last_verified'', rb_parseDate (js_get rf ''last_verified'')),
              (''date_last_activity'', rb_parseDate (js_get rf ''date_last_activity'')),
              (''date_reported'', rb_parseDate (js_get rf ''date_reported'')),
              (''date_opened'', rb_parseDate (js_get rf ''date_opened'')),
              (''balance_owed'', rb_cleanText (js_get rf ''balance_owed'')),
              (''closed_date'', rb_parseDate (js_get rf ''closed_date'')),
              (''account_rating'', rb_cleanText (js_get rf ''account_rating'')),
              (''account_description'', rb_cleanText (js_get rf ''account_description'')),
              (''dispute_status'', rb_cleanText (js_get rf ''dispute_status'')),
              (''creditor_type'', rb_cleanText (js_get rf ''creditor_type'')),
              (''account_status'', rb_cleanText (js_get rf ''account_status'')),
              (''payment_status'', rb_cleanText (js_get rf ''payment_status'')),
              (''creditor_remarks'', rb_cleanText (js_get rf ''creditor_remarks'')),
              (''payment_amount'', rb_cleanText (js_get rf ''payment_amount'')),
              (''last_payment'', rb_parseDate (js_get rf ''last_payment'')),
              (''term_length'', rb_cleanText (js_get rf ''term_length'')),
              (''past_due_amount'', rb_cleanText (js_get rf ''past_due_amount'')),
              (''account_type'', rb_cleanText (js_get rf ''account_type'')),
              (''payment_frequency'', rb_cleanText (js_get rf ''payment_frequency'')),
              (''credit_limit'', rb_cleanText (js_get rf ''credit_limit''))] f
         \<in> {Some (rb_cleanText (js_get rf f)), Some (rb_parseDate (js_get rf f))}"
  using assms unfolding account_fields_def by auto

lemma parseAccountFields_absent:
  assumes p: "parseAccountFields (Some rf) = Inr (Some out)"
      and f: "f \<in> set account_fields"
      and a: "js_get rf f \<in> set absent_values"
  shows "js_get out f = JNull"
proof -
  note n = absent_null[OF a]
  from p obtain kvs where b: "build_obj kvs = Inr out"
     and kvs: "map_of kvs f \<in> {Some (rb_cleanText (js_get rf f)), Some (rb_parseDate (js_get rf f))}"
    using account_field_entry[OF f, of rf]
    by (auto simp: parseAccountFields_def split: sum.splits)
  then have "map_of kvs f = Some (Inr JNull)" using n by auto
  from build_obj_get[OF b this] show ?thesis by (simp add: js_get_def)
qed

text \<open>
  Claim C10. \<open>ReportBuilder.cleanText\<close> and \<open>ReportBuilder.parseDate\<close> return null on
  each of \<open>""\<close>, \<open>"-"\<close>, \<open>"N/A"\<close>, \<open>"--"\<close>, \<open>undefined\<close> and null. The base
  \<open>cleanText\<close> returns null on \<open>""\<close> and \<open>"--"\<close> but keeps \<open>"-"\<close> and \<open>"N/A"\<close>. So
  in the field map that \<open>parseAccountFields\<close> returns for a bureau of an account, every
  field whose raw value is one of the six is null.
\<close>

theorem builder_absent_values:
  "list_all (\<lambda>v. rb_cleanText v = Inr JNull \<and> rb_parseDate v = Inr JNull)
      [JStr [], JStr ''-'', JStr ''N/A'', JStr ''--'', JUndefined, JNull]
   \<and> cleanText (JStr []) = Inr JNull \<and> cleanText (JStr ''--'') = Inr JNull
   \<and> cleanText (JStr ''-'') = Inr (JStr ''-'') \<and> cleanText (JStr ''N/A'') = Inr (JStr ''N/A'')
   \<and> (parseAccountFields (Some rf) = Inr (Some out) \<and> f \<in> set account_fields \<and>
        js_get rf f \<in> set absent_values \<longrightarrow> js_get out f = JNull)"
proof -
  have 1: "list_all (\<lambda>v. rb_cleanText v = Inr JNull \<and> rb_parseDate v = Inr JNull)
      [JStr [], JStr ''-'', JStr ''N/A'', JStr ''--'', JUndefined, JNull]"
    using absent_null by (simp add: absent_values_def)
  have 2: "cleanText (JStr []) = Inr JNull \<and> cleanText (JStr ''--'') = Inr JNull
   \<and> cleanText (JStr ''-'') = Inr (JStr ''-'') \<and> cleanText (JStr ''N/A'') = Inr (JStr ''N/A'')"
    by (simp add: cleanText_def trim_def is_space_def)
  show ?thesis using 1 2 parseAccountFields_absent by blast
qed

text \<open>The theorem at a bureau whose high balance reads \<open>"N/A"\<close>.\<close>

theorem builder_absent_values_witness:
  "parseAccountFields (Some sample_fields) = Inr (Some sample_parsed_fields)
   \<and> js_get sample_fields ''high_balance'' = JStr ''N/A''
   \<and> js_get sample_parsed_fields ''high_balance'' = JNull"
proof -
  have p: "parseAccountFields (Some sample_fields) = Inr (Some sample_parsed_fields)"
    by (simp add: parseAccountFields_def sample_fields_def sample_parsed_fields_def js_get_def
          rb_cleanText_def rb_parseDate_def cleanText_def trim_def is_space_def)
  have g: "js_get sample_fields ''high_balance'' = JStr ''N/A''"
    by (simp add: sample_fields_def js_get_def)
  have "js_get sample_parsed_fields ''high_balance'' = JNull"
    using builder_absent_values[of sample_fields sample_parsed_fields "''high_balance''"] p g
    by (simp add: account_fields_def absent_values_def)
  then show ?thesis using p g by simp
qed

section \<open>The grid extractor\<close>

lemmas grid_eval =
  extractGridData_def grid_evaluate_def extractBureauData_def mapFieldsToObject_def
  nth_opt_def text_or_null_def trim_def is_space_def

lemma trim_770: "trim ''770'' = ''770''"
  by (simp add: trim_def is_space_def)

text \<open>
  Claim C3, as amended. For a document whose grid has four column groups and whose
  bureau-1 column holds a header cell followed by the cell \<open>"770"\<close>, with the single
  configured field \<open>transunion_field\<close>, the \<open>transunion\<close> map of the result of
  \<open>extractGridData\<close> is \<open>{ transunion_field: "770" }\<close>; and \<open>parse3BScores\<close> maps the
  scores \<open>"770"\<close>, \<open>"790"\<close>, \<open>"789"\<close> to the numbers 770, 790, 789.
\<close>

theorem grid_scenario:
  "(0 \<le> sectionIndex cfg \<and> sectionIndex cfg < int (length (mt5_sections pg)) \<and>
    0 \<le> gridIndex cfg \<and> gridIndex cfg < int (length (grids (mt5_sections pg ! nat (sectionIndex cfg)))) \<and>
    length (grids (mt5_sections pg ! nat (sectionIndex cfg)) ! nat (gridIndex cfg)) = 4 \<and>
    grids (mt5_sections pg ! nat (sectionIndex cfg)) ! nat (gridIndex cfg) ! 1 = [hdr, ''770''] \<and>
    cfg_fields cfg = [''transunion_field'']
    \<longrightarrow> map_option transunion (extractGridData pg cfg) = Some [(''transunion_field'', JStr ''770'')])
   \<and> parse3BScores \<lparr>transunion = JStr ''770'', experian = JStr ''790'', equifax = JStr ''789''\<rparr>
       = \<lparr>transunion = JNum 770, experian = JNum 790, equifax = JNum 789\<rparr>"
proof (intro conjI impI)
  show "parse3BScores \<lparr>transunion = JStr ''770'', experian = JStr ''790'', equifax = JStr ''789''\<rparr>
       = \<lparr>transunion = JNum 770, experian = JNum 790, equifax = JNum 789\<rparr>"
    by (simp add: parse3BScores_def number_eval)
next
  assume h: "0 \<le> sectionIndex cfg \<and> sectionIndex cfg < int (length (mt5_sections pg)) \<and>
    0 \<le> gridIndex cfg \<and> gridIndex cfg < int (length (grids (mt5_sections pg ! nat (sectionIndex cfg)))) \<and>
    length (grids (mt5_sections pg ! nat (sectionIndex cfg)) ! nat (gridIndex cfg)) = 4 \<and>
    grids (mt5_sections pg ! nat (sectionIndex cfg)) ! nat (gridIndex cfg) ! 1 = [hdr, ''770''] \<and>
    cfg_fields cfg = [''transunion_field'']"
  define cols where "cols = grids (mt5_sections pg ! nat (sectionIndex cfg)) ! nat (gridIndex cfg)"
  have ev: "grid_evaluate pg (sectionIndex cfg) (gridIndex cfg) =
      Inr (Some \<lparr>transunion = extractBureauData cols 1, experian = extractBureauData cols 2, equifax = extractBureauData cols 3\<rparr>)"
    using h by (auto simp: grid_evaluate_def Let_def cols_def)
  have tu: "extractBureauData cols (Suc 0) = [''770'']"
    using h by (simp add: extractBureauData_def cols_def trim_770)
  show "map_option transunion (extractGridData pg cfg) = Some [(''transunion_field'', JStr ''770'')]"
    using h by (simp add: extractGridData_def ev tu mapFieldsToObject_def nth_opt_def text_or_null_def)
qed

text \<open>The theorem at a document whose bureau columns hold a header and a score.\<close>

theorem grid_scenario_witness:
  "map_option transunion (extractGridData score_page one_field_config) = Some [(''transunion_field'', JStr ''770'')]"
  using grid_scenario[of one_field_config score_page "''TransUnion''"]
  by (simp add: score_page_def one_field_config_def)


text \<open>
  The claim as written gives the bureau-1 column the cell list \<open>["770"]\<close>. The first
  cell of a column is its header and is skipped: the field is null.
\<close>

theorem bare_cells_counterexample:
  "length (grids (mt5_sections bare_score_page ! 0) ! 0) = 4 \<and>
   grids (mt5_sections bare_score_page ! 0) ! 0 ! 1 = [''770''] \<and>
   map_option transunion (extractGridData bare_score_page one_field_config)
     = Some [(''transunion_field'', JNull)]"
  by (simp add: bare_score_page_def one_field_config_def grid_eval)

text \<open>
  Claim C4, as amended. \<open>extractGridData\<close> returns null, and never throws, exactly when
  the section ordinal is out of range, the grid ordinal is out of range, or the grid has
  fewer than four column groups. (The function's result type has no exception: the
  \<open>try\<close> around its body turns every exception into null.)
\<close>

theorem extractGridData_null_iff:
  "extractGridData pg cfg = None \<longleftrightarrow>
     (sectionIndex cfg < 0 \<or> sectionIndex cfg \<ge> int (length (mt5_sections pg))
      \<or> gridIndex cfg < 0
      \<or> gridIndex cfg \<ge> int (length (grids (mt5_sections pg ! nat (sectionIndex cfg))))
      \<or> length (grids (mt5_sections pg ! nat (sectionIndex cfg)) ! nat (gridIndex cfg)) < 4)"
  by (auto simp: extractGridData_def grid_evaluate_def Let_def split: sum.splits option.splits if_splits)

text \<open>
  The claim as written asks for exactly four column groups. A grid with five is read
  like one with four: the result is not null.
\<close>

theorem five_columns_counterexample:
  "length (grids (mt5_sections five_column_page ! 0) ! 0) \<noteq> 4 \<and>
   extractGridData five_column_page one_field_config =
     Some \<lparr>transunion = [(''transunion_field'', JStr ''a'')],
           experian = [(''transunion_field'', JStr ''b'')],
           equifax = [(''transunion_field'', JStr ''c'')]\<rparr>"
  by (simp add: five_column_page_def one_field_config_def grid_eval)

section \<open>The account-list extractor\<close>

lemma map_filter_all_Some:
  "list_all (\<lambda>x. f x \<noteq> None) xs \<Longrightarrow> List.map_filter f xs = map (\<lambda>x. the (f x)) xs"
  by (induction xs) auto

lemma processContainer_usable:
  assumes "usable_grid c"
  shows "processContainer cfg idx c \<noteq> None"
  using assms by (auto simp: usable_grid_def processContainer_def split: option.splits)

lemma list_all_enumerate:
  "list_all P xs \<Longrightarrow> list_all (\<lambda>(i, x). P x) (enumerate n xs)"
  by (induction xs arbitrary: n) auto

lemma extract_usable:
  assumes sec: "accountHistorySection pg = Some sec"
      and ok: "list_all usable_grid (accountContainers sec)"
  shows "extractAccountHistory pg cfg =
           map (\<lambda>(i, c). the (processContainer cfg i c)) (enumerate 0 (accountContainers sec))"
proof -
  have "list_all (\<lambda>x. (case x of (idx, container) \<Rightarrow> processContainer cfg idx container) \<noteq> None)
          (enumerate 0 (accountContainers sec))"
    using list_all_enumerate[OF ok, of 0] processContainer_usable
    by (auto simp: list_all_iff)
  from map_filter_all_Some[OF this] show ?thesis
    by (simp add: extractAccountHistory_def sec case_prod_unfold)
qed

lemma extract_usable_length:
  assumes "accountHistorySection pg = Some sec" "list_all usable_grid (accountContainers sec)"
  shows "length (extractAccountHistory pg cfg) = length (accountContainers sec)"
  by (simp add: extract_usable[OF assms])




lemma string_of_nat_nonempty: "string_of_nat n \<noteq> []"
  by (subst string_of_nat.simps) simp







section \<open>The orchestrator\<close>

lemma step_scores_frame:
  "personalInfo (step_scores E pg opts raw) = personalInfo raw"
  "summary (step_scores E pg opts raw) = summary raw"
  "accountHistory (step_scores E pg opts raw) = accountHistory raw"
  "accountHistoryPagination (step_scores E pg opts raw) = accountHistoryPagination raw"
  "publicRecords (step_scores E pg opts raw) = publicRecords raw"
  "inquiries (step_scores E pg opts raw) = inquiries raw"
  "creditorContacts (step_scores E pg opts raw) = creditorContacts raw"
  "dashboardScores (step_scores E pg opts raw) = dashboardScores raw"
  by (simp_all add: step_scores_def split: sum.splits)

lemma step_personalInfo_frame:
  "scores (step_personalInfo E pg opts raw) = scores raw"
  "summary (step_personalInfo E pg opts raw) = summary raw"
  "accountHistory (step_personalInfo E pg opts raw) = accountHistory raw"
  "accountHistoryPagination (step_personalInfo E pg opts raw) = accountHistoryPagination raw"
  "publicRecords (step_personalInfo E pg opts raw) = publicRecords raw"
  "inquiries (step_personalInfo E pg opts raw) = inquiries raw"
  "creditorContacts (step_personalInfo E pg opts raw) = creditorContacts raw"
  "dashboardScores (step_personalInfo E pg opts raw) = dashboardScores raw"
  by (simp_all add: step_personalInfo_def split: sum.splits)

lemma step_summary_frame:
  "scores (step_summary E pg opts raw) = scores raw"
  "personalInfo (step_summary E pg opts raw) = personalInfo raw"
  "accountHistory (step_summary E pg opts raw) = accountHistory raw"
  "accountHistoryPagination (step_summary E pg opts raw) = accountHistoryPagination raw"
  "publicRecords (step_summary E pg opts raw) = publicRecords raw"
  "inquiries (step_summary E pg opts raw) = inquiries raw"
  "creditorContacts (step_summary E pg opts raw) = creditorContacts raw"
  "dashboardScores (step_summary E pg opts raw) = dashboardScores raw"
  by (simp_all add: step_summary_def split: sum.splits option.splits)

lemma step_accountHistory_frame:
  "scores (step_accountHistory E pg opts raw) = scores raw"
  "personalInfo (step_accountHistory E pg opts raw) = personalInfo raw"
  "summary (step_accountHistory E pg opts raw) = summary raw"
  "publicRecords (step_accountHistory E pg opts raw) = publicRecords raw"
  "inquiries (step_accountHistory E pg opts raw) = inquiries raw"
  "creditorContacts (step_accountHistory E pg opts raw) = creditorContacts raw"
  "dashboardScores (step_accountHistory E pg opts raw) = dashboardScores raw"
  by (simp_all add: step_accountHistory_def Let_def split: sum.splits)

lemma step_publicRecords_frame:
  "scores (step_publicRecords E pg opts raw) = scores raw"
  "personalInfo (step_publicRecords E pg opts raw) = personalInfo raw"
  "summary (step_publicRecords E pg opts raw) = summary raw"
  "accountHistory (step_publicRecords E pg opts raw) = accountHistory raw"
  "accountHistoryPagination (step_publicRecords E pg opts raw) = accountHistoryPagination raw"
  "inquiries (step_publicRecords E pg opts raw) = inquiries raw"
  "creditorContacts (step_publicRecords E pg opts raw) = creditorContacts raw"
  "dashboardScores (step_publicRecords E pg opts raw) = dashboardScores raw"
  by (simp_all add: step_publicRecords_def split: sum.splits)

lemma step_inquiries_frame:
  "scores (step_inquiries E pg opts raw) = scores raw"
  "personalInfo (step_inquiries E pg opts raw) = personalInfo raw"
  "summary (step_inquiries E pg opts raw) = summary raw"
  "accountHistory (step_inquiries E pg opts raw) = accountHistory raw"
  "accountHistoryPagination (step_inquiries E pg opts raw) = accountHistoryPagination raw"
  "publicRecords (step_inquiries E pg opts raw) = publicRecords raw"
  "creditorContacts (step_inquiries E pg opts raw) = creditorContacts raw"
  "dashboardScores (step_inquiries E pg opts raw) = dashboardScores raw"
  by (simp_all add: step_inquiries_def split: sum.splits)

lemma step_creditorContacts_frame:
  "scores (step_creditorContacts E pg opts raw) = scores raw"
  "personalInfo (step_creditorContacts E pg opts raw) = personalInfo raw"
  "summary (step_creditorContacts E pg opts raw) = summary raw"
  "accountHistory (step_creditorContacts E pg opts raw) = accountHistory raw"
  "accountHistoryPagination (step_creditorContacts E pg opts raw) = accountHistoryPagination raw"
  "publicRecords (step_creditorContacts E pg opts raw) = publicRecords raw"
  "inquiries (step_creditorContacts E pg opts raw) = inquiries raw"
  "dashboardScores (step_creditorContacts E pg opts raw) = dashboardScores raw"
  by (simp_all add: step_creditorContacts_def split: sum.splits)

lemmas step_frames =
  step_scores_frame step_personalInfo_frame step_summary_frame step_accountHistory_frame
  step_publicRecords_frame step_inquiries_frame step_creditorContacts_frame

lemma extractAll_fields:
  "scores (extractAll3BReport E pg opts) = scores (step_scores E pg opts empty_raw3BData)"
  "personalInfo (extractAll3BReport E pg opts) = personalInfo (step_personalInfo E pg opts empty_raw3BData)"
  "summary (extractAll3BReport E pg opts) = summary (step_summary E pg opts empty_raw3BData)"
  "accountHistory (extractAll3BReport E pg opts) = accountHistory (step_accountHistory E pg opts empty_raw3BData)"
  "accountHistoryPagination (extractAll3BReport E pg opts)
     = accountHistoryPagination (step_accountHistory E pg opts empty_raw3BData)"
  "publicRecords (extractAll3BReport E pg opts) = publicRecords (step_publicRecords E pg opts empty_raw3BData)"
  "inquiries (extractAll3BReport E pg opts) = inquiries (step_inquiries E pg opts empty_raw3BData)"
  "creditorContacts (extractAll3BReport E pg opts)
     = creditorContacts (step_creditorContacts E pg opts empty_raw3BData)"
  "dashboardScores (extractAll3BReport E pg opts) = None"
proof -
  show "scores (extractAll3BReport E pg opts) = scores (step_scores E pg opts empty_raw3BData)"
    by (simp add: extractAll3BReport_def step_frames)
  show "personalInfo (extractAll3BReport E pg opts) = personalInfo (step_personalInfo E pg opts empty_raw3BData)"
    by (simp add: extractAll3BReport_def step_frames)
       (simp add: step_personalInfo_def step_frames split: sum.splits)
  show "summary (extractAll3BReport E pg opts) = summary (step_summary E pg opts empty_raw3BData)"
    by (simp add: extractAll3BReport_def step_frames)
       (simp add: step_summary_def step_frames split: sum.splits option.splits)
  show "accountHistory (extractAll3BReport E pg opts) = accountHistory (step_accountHistory E pg opts empty_raw3BData)"
    by (simp add: extractAll3BReport_def step_frames)
       (simp add: step_accountHistory_def step_frames Let_def split: sum.splits)
  show "accountHistoryPagination (extractAll3BReport E pg opts)
     = accountHistoryPagination (step_accountHistory E pg opts empty_raw3BData)"
    by (simp add: extractAll3BReport_def step_frames)
       (simp add: step_accountHistory_def step_frames Let_def empty_raw3BData_def split: sum.splits)
  show "publicRecords (extractAll3BReport E pg opts) = publicRecords (step_publicRecords E pg opts empty_raw3BData)"
    by (simp add: extractAll3BReport_def step_frames)
       (simp add: step_publicRecords_def step_frames empty_raw3BData_def split: sum.splits)
  show "inquiries (extractAll3BReport E pg opts) = inquiries (step_inquiries E pg opts empty_raw3BData)"
    by (simp add: extractAll3BReport_def step_frames)
       (simp add: step_inquiries_def step_frames empty_raw3BData_def split: sum.splits)
  show "creditorContacts (extractAll3BReport E pg opts)
     = creditorContacts (step_creditorContacts E pg opts empty_raw3BData)"
    by (simp add: extractAll3BReport_def)
       (simp add: step_creditorContacts_def step_frames empty_raw3BData_def split: sum.splits)
  show "dashboardScores (extractAll3BReport E pg opts) = None"
    by (simp add: extractAll3BReport_def step_frames empty_raw3BData_def)
qed


lemma step_own:
  "requested opts ''scores'' \<Longrightarrow> scores (step_scores E pg opts raw) =
     Some (case call_extractScores E pg of Inl e \<Rightarrow> None | Inr v \<Rightarrow> v)"
  "requested opts ''personalInfo'' \<Longrightarrow> personalInfo (step_personalInfo E pg opts raw) =
     Some (case call_extractGridData E pg personalInfo_config of Inl e \<Rightarrow> None | Inr v \<Rightarrow> v)"
  "requested opts ''publicRecords'' \<Longrightarrow> publicRecords (step_publicRecords E pg opts raw) =
     Some (case call_extractPublicRecords E pg of Inl e \<Rightarrow> None | Inr v \<Rightarrow> v)"
  "requested opts ''inquiries'' \<Longrightarrow> inquiries (step_inquiries E pg opts raw) =
     Some (case call_extractInquiries E pg of Inl e \<Rightarrow> None | Inr v \<Rightarrow> v)"
  "requested opts ''creditorContacts'' \<Longrightarrow> creditorContacts (step_creditorContacts E pg opts raw) =
     Some (Some (case call_extractCreditorContacts E pg of Inl e \<Rightarrow> [] | Inr v \<Rightarrow> v))"
  by (simp_all add: step_scores_def step_personalInfo_def step_publicRecords_def
        step_inquiries_def step_creditorContacts_def split: sum.splits)

lemma step_summary_own:
  assumes "requested opts ''summary''"
  shows "call_extractGridData E pg summary_config = Inl e \<Longrightarrow> summary (step_summary E pg opts raw) = Some None"
    and "call_extractGridData E pg summary_config = Inr s \<Longrightarrow> call_extractSummaryDetails E pg = Inl e
           \<Longrightarrow> summary (step_summary E pg opts raw) = Some None"
    and "call_extractGridData E pg summary_config = Inr s \<Longrightarrow> call_extractSummaryDetails E pg = Inr d
           \<Longrightarrow> summary (step_summary E pg opts raw) =
               Some (case (d, s) of (Some dv, Some sv) \<Rightarrow> Some (mergeSummary sv dv) | _ \<Rightarrow> s)"
  using assms by (simp_all add: step_summary_def split: option.splits)

lemma step_accountHistory_own:
  assumes "requested opts ''accountHistory''"
  shows "\<not> use_pagination opts \<Longrightarrow> accountHistory (step_accountHistory E pg opts raw) =
           Some (Some (case call_extractAccountHistory E pg accountHistory_config of Inl e \<Rightarrow> [] | Inr v \<Rightarrow> v))"
    and "accountHistoryOptions opts = Some ao \<Longrightarrow> opt_limit ao \<noteq> None \<Longrightarrow>
         accountHistory (step_accountHistory E pg opts raw) =
           Some (Some (case call_extractAccountHistoryPaginated E pg accountHistory_config ao of
                         Inl e \<Rightarrow> [] | Inr r \<Rightarrow> accounts r))"
    and "accountHistoryOptions opts = Some ao \<Longrightarrow> opt_limit ao \<noteq> None \<Longrightarrow>
         call_extractAccountHistoryPaginated E pg accountHistory_config ao = Inr r \<Longrightarrow>
         accountHistoryPagination (step_accountHistory E pg opts raw) =
           Some \<lparr>limit = limit r, offset = offset r, total = total r, hasMore = hasMore r\<rparr>"
  using assms
  by (auto simp: step_accountHistory_def use_pagination_def Let_def split: sum.splits option.splits)

text \<open>
  Claim C1. For every set of extractors, page and requested sections, the result of
  \<open>extractAll3BReport\<close> holds, for each requested section, what that section's own
  extractor did, whatever the others do: null when it throws (the empty list for Account
  History and Creditor Contacts), and the value it returns otherwise. For Summary the
  value is the grid, merged with the account counters when both reads gave one, and
  null when either read throws. The function itself returns a result in every case.
\<close>

theorem section_isolation:
  "(requested opts ''scores'' \<longrightarrow>
      (\<forall>e. call_extractScores E pg = Inl e \<longrightarrow> scores (extractAll3BReport E pg opts) = Some None) \<and>
      (\<forall>v. call_extractScores E pg = Inr v \<longrightarrow> scores (extractAll3BReport E pg opts) = Some v))
   \<and> (requested opts ''personalInfo'' \<longrightarrow>
      (\<forall>e. call_extractGridData E pg personalInfo_config = Inl e \<longrightarrow>
            personalInfo (extractAll3BReport E pg opts) = Some None) \<and>
      (\<forall>v. call_extractGridData E pg personalInfo_config = Inr v \<longrightarrow>
            personalInfo (extractAll3BReport E pg opts) = Some v))
   \<and> (requested opts ''summary'' \<longrightarrow>
      (\<forall>e. call_extractGridData E pg summary_config = Inl e \<longrightarrow>
            summary (extractAll3BReport E pg opts) = Some None) \<and>
      (\<forall>s e. call_extractGridData E pg summary_config = Inr s \<and> call_extractSummaryDetails E pg = Inl e \<longrightarrow>
            summary (extractAll3BReport E pg opts) = Some None) \<and>
      (\<forall>s d. call_extractGridData E pg summary_config = Inr s \<and> call_extractSummaryDetails E pg = Inr d \<longrightarrow>
            summary (extractAll3BReport E pg opts) =
              Some (case (d, s) of (Some dv, Some sv) \<Rightarrow> Some (mergeSummary sv dv) | _ \<Rightarrow> s)))
   \<and> (requested opts ''accountHistory'' \<and> \<not> use_pagination opts \<longrightarrow>
      (\<forall>e. call_extractAccountHistory E pg accountHistory_config = Inl e \<longrightarrow>
            accountHistory (extractAll3BReport E pg opts) = Some (Some [])) \<and>
      (\<forall>v. call_extractAccountHistory E pg accountHistory_config = Inr v \<longrightarrow>
            accountHistory (extractAll3BReport E pg opts) = Some (Some v)))
   \<and> (requested opts ''accountHistory'' \<and> accountHistoryOptions opts = Some ao \<and> opt_limit ao \<noteq> None \<longrightarrow>
      (\<forall>e. call_extractAccountHistoryPaginated E pg accountHistory_config ao = Inl e \<longrightarrow>
            accountHistory (extractAll3BReport E pg opts) = Some (Some [])) \<and>
      (\<forall>r. call_extractAccountHistoryPaginated E pg accountHistory_config ao = Inr r \<longrightarrow>
            accountHistory (extractAll3BReport E pg opts) = Some (Some (accounts r))))
   \<and> (requested opts ''publicRecords'' \<longrightarrow>
      (\<forall>e. call_extractPublicRecords E pg = Inl e \<longrightarrow>
            publicRecords (extractAll3BReport E pg opts) = Some None) \<and>
      (\<forall>v. call_extractPublicRecords E pg = Inr v \<longrightarrow>
            publicRecords (extractAll3BReport E pg opts) = Some v))
   \<and> (requested opts ''inquiries'' \<longrightarrow>
      (\<forall>e. call_extractInquiries E pg = Inl e \<longrightarrow>
            inquiries (extractAll3BReport E pg opts) = Some None) \<and>
      (\<forall>v. call_extractInquiries E pg = Inr v \<longrightarrow>
            inquiries (extractAll3BReport E pg opts) = Some v))
   \<and> (requested opts ''creditorContacts'' \<longrightarrow>
      (\<forall>e. call_extractCreditorContacts E pg = Inl e \<longrightarrow>
            creditorContacts (extractAll3BReport E pg opts) = Some (Some [])) \<and>
      (\<forall>v. call_extractCreditorContacts E pg = Inr v \<longrightarrow>
            creditorContacts (extractAll3BReport E pg opts) = Some (Some v)))"
proof -
  have 1: "requested opts ''scores'' \<longrightarrow>
      (\<forall>e. call_extractScores E pg = Inl e \<longrightarrow> scores (extractAll3BReport E pg opts) = Some None) \<and>
      (\<forall>v. call_extractScores E pg = Inr v \<longrightarrow> scores (extractAll3BReport E pg opts) = Some v)"
    by (simp add: extractAll_fields step_own)
  have 2: "requested opts ''personalInfo'' \<longrightarrow>
      (\<forall>e. call_extractGridData E pg personalInfo_config = Inl e \<longrightarrow>
            personalInfo (extractAll3BReport E pg opts) = Some None) \<and>
      (\<forall>v. call_extractGridData E pg personalInfo_config = Inr v \<longrightarrow>
            personalInfo (extractAll3BReport E pg opts) = Some v)"
    by (simp add: extractAll_fields step_own)
  have 3: "requested opts ''summary'' \<longrightarrow>
      (\<forall>e. call_extractGridData E pg summary_config = Inl e \<longrightarrow>
            summary (extractAll3BReport E pg opts) = Some None) \<and>
      (\<forall>s e. call_extractGridData E pg summary_config = Inr s \<and> call_extractSummaryDetails E pg = Inl e \<longrightarrow>
            summary (extractAll3BReport E pg opts) = Some None) \<and>
      (\<forall>s d. call_extractGridData E pg summary_config = Inr s \<and> call_extractSummaryDetails E pg = Inr d \<longrightarrow>
            summary (extractAll3BReport E pg opts) =
              Some (case (d, s) of (Some dv, Some sv) \<Rightarrow> Some (mergeSummary sv dv) | _ \<Rightarrow> s))"
    using step_summary_own[of opts E pg] by (simp add: extractAll_fields)
  have 4: "requested opts ''accountHistory'' \<and> \<not> use_pagination opts \<longrightarrow>
      (\<forall>e. call_extractAccountHistory E pg accountHistory_config = Inl e \<longrightarrow>
            accountHistory (extractAll3BReport E pg opts) = Some (Some [])) \<and>
      (\<forall>v. call_extractAccountHistory E pg accountHistory_config = Inr v \<longrightarrow>
            accountHistory (extractAll3BReport E pg opts) = Some (Some v))"
    by (simp add: extractAll_fields step_accountHistory_own(1))
  have 5: "requested opts ''accountHistory'' \<and> accountHistoryOptions opts = Some ao \<and> opt_limit ao \<noteq> None \<longrightarrow>
      (\<forall>e. call_extractAccountHistoryPaginated E pg accountHistory_config ao = Inl e \<longrightarrow>
            accountHistory (extractAll3BReport E pg opts) = Some (Some [])) \<and>
      (\<forall>r. call_extractAccountHistoryPaginated E pg accountHistory_config ao = Inr r \<longrightarrow>
            accountHistory (extractAll3BReport E pg opts) = Some (Some (accounts r)))"
    by (simp add: extractAll_fields step_accountHistory_own(2))
  have 6: "requested opts ''publicRecords'' \<longrightarrow>
      (\<forall>e. call_extractPublicRecords E pg = Inl e \<longrightarrow>
            publicRecords (extractAll3BReport E pg opts) = Some None) \<and>
      (\<forall>v. call_extractPublicRecords E pg = Inr v \<longrightarrow>
            publicRecords (extractAll3BReport E pg opts) = Some v)"
    by (simp add: extractAll_fields step_own)
  have 7: "requested opts ''inquiries'' \<longrightarrow>
      (\<forall>e. call_extractInquiries E pg = Inl e \<longrightarrow>
            inquiries (extractAll3BReport E pg opts) = Some None) \<and>
      (\<forall>v. call_extractInquiries E pg = Inr v \<longrightarrow>
            inquiries (extractAll3BReport E pg opts) = Some v)"
    by (simp add: extractAll_fields step_own)
  have 8: "requested opts ''creditorContacts'' \<longrightarrow>
      (\<forall>e. call_extractCreditorContacts E pg = Inl e \<longrightarrow>
            creditorContacts (extractAll3BReport E pg opts) = Some (Some [])) \<and>
      (\<forall>v. call_extractCreditorContacts E pg = Inr v \<longrightarrow>
            creditorContacts (extractAll3BReport E pg opts) = Some (Some v))"
    by (simp add: extractAll_fields step_own)
  from 1 2 3 4 5 6 7 8 show ?thesis by blast
qed

text \<open>
  The theorem with every section requested, at extractors whose Personal Information
  read and Creditor Contacts read throw: those two sections are null and the empty list,
  and every other section holds its extractor's value.
\<close>

lemma all_requested: "requested all_sections name"
  by (simp add: requested_def all_sections_def)

theorem section_isolation_witness:
  "personalInfo (extractAll3BReport failing_personalInfo () all_sections) = Some None
   \<and> scores (extractAll3BReport failing_personalInfo () all_sections) = Some (Some sample_scores)
   \<and> summary (extractAll3BReport failing_personalInfo () all_sections) = Some (Some sample_grid_result)
   \<and> accountHistory (extractAll3BReport failing_personalInfo () all_sections) = Some (Some [])
   \<and> publicRecords (extractAll3BReport failing_personalInfo () all_sections) = Some (Some sample_scores)
   \<and> inquiries (extractAll3BReport failing_personalInfo () all_sections)
       = Some (Some \<lparr>inquiries_count = None, details = []\<rparr>)
   \<and> creditorContacts (extractAll3BReport failing_personalInfo () all_sections) = Some (Some [])"
  using section_isolation[of all_sections failing_personalInfo "()" "\<lparr>opt_limit = None, opt_offset = None\<rparr>"]
  by (simp add: all_requested use_pagination_def)
     (simp add: failing_personalInfo_def all_sections_def personalInfo_config_def summary_config_def)


section \<open>Pagination\<close>

lemma js_slice_window:
  assumes "0 \<le> ofs" "0 \<le> lmt"
  shows "js_slice xs ofs (ofs + lmt) = take (nat lmt) (drop (nat ofs) xs)"
proof (cases "ofs < int (length xs)")
  case True
  then show ?thesis using assms
    by (auto simp: js_slice_def Let_def min_def nat_diff_distrib nat_add_distrib)
next
  case False
  then show ?thesis using assms by (simp add: js_slice_def Let_def min_def)
qed


lemma paginated_fields:
  "total (extractAccountHistoryPaginated pg cfg \<lparr>opt_limit = Some lmt, opt_offset = Some ofs\<rparr>)
     = length (extractAccountHistory pg cfg)"
  "hasMore (extractAccountHistoryPaginated pg cfg \<lparr>opt_limit = Some lmt, opt_offset = Some ofs\<rparr>)
     = (ofs + lmt < int (length (extractAccountHistory pg cfg)))"
  "limit (extractAccountHistoryPaginated pg cfg \<lparr>opt_limit = Some lmt, opt_offset = Some ofs\<rparr>) = lmt"
  "offset (extractAccountHistoryPaginated pg cfg \<lparr>opt_limit = Some lmt, opt_offset = Some ofs\<rparr>) = ofs"
  "accounts (extractAccountHistoryPaginated pg cfg \<lparr>opt_limit = Some lmt, opt_offset = Some ofs\<rparr>)
     = js_slice (extractAccountHistory pg cfg) ofs (ofs + lmt)"
  by (simp_all add: extractAccountHistoryPaginated_def Let_def)

lemma service_calls:
  "call_extractAccountHistoryPaginated (service_extractors sc sd pr iq cc) pg cfg ao
     = Inr (extractAccountHistoryPaginated pg cfg ao)"
  by (simp add: service_extractors_def)

text \<open>
  Claim C6. For every page, configuration, limit and offset, the result of
  \<open>extractAccountHistoryPaginated\<close> has \<open>total\<close> equal to the length \<open>N\<close> of the full
  extraction, \<open>hasMore\<close> equal to \<open>offset + limit < N\<close>, and \<open>accounts\<close> equal to the slice
  of the full list from \<open>offset\<close> to \<open>offset + limit\<close>: the \<open>limit\<close> elements after the
  first \<open>offset\<close> ones for a window that is not negative. For \<open>N = 34\<close>, limit 20 and
  offset 0 it has 20 accounts, total 34 and \<open>hasMore\<close> true. The orchestrator stores the
  slice as the Account History and the rest as its pagination.
\<close>

theorem pagination_view:
  "total (extractAccountHistoryPaginated pg cfg \<lparr>opt_limit = Some lmt, opt_offset = Some ofs\<rparr>)
     = length (extractAccountHistory pg cfg)
   \<and> hasMore (extractAccountHistoryPaginated pg cfg \<lparr>opt_limit = Some lmt, opt_offset = Some ofs\<rparr>)
     = (ofs + lmt < int (length (extractAccountHistory pg cfg)))
   \<and> accounts (extractAccountHistoryPaginated pg cfg \<lparr>opt_limit = Some lmt, opt_offset = Some ofs\<rparr>)
     = js_slice (extractAccountHistory pg cfg) ofs (ofs + lmt)
   \<and> (0 \<le> ofs \<and> 0 \<le> lmt \<longrightarrow>
        accounts (extractAccountHistoryPaginated pg cfg \<lparr>opt_limit = Some lmt, opt_offset = Some ofs\<rparr>)
          = take (nat lmt) (drop (nat ofs) (extractAccountHistory pg cfg)))
   \<and> (length (extractAccountHistory pg cfg) = 34 \<longrightarrow>
        length (accounts (extractAccountHistoryPaginated pg cfg \<lparr>opt_limit = Some 20, opt_offset = Some 0\<rparr>)) = 20
        \<and> total (extractAccountHistoryPaginated pg cfg \<lparr>opt_limit = Some 20, opt_offset = Some 0\<rparr>) = 34
        \<and> hasMore (extractAccountHistoryPaginated pg cfg \<lparr>opt_limit = Some 20, opt_offset = Some 0\<rparr>))
   \<and> (requested opts ''accountHistory'' \<and>
        accountHistoryOptions opts = Some \<lparr>opt_limit = Some lmt, opt_offset = Some ofs\<rparr> \<longrightarrow>
        accountHistory (extractAll3BReport (service_extractors sc sd pr iq cc) pg opts)
          = Some (Some (js_slice (extractAccountHistory pg accountHistory_config) ofs (ofs + lmt)))
        \<and> accountHistoryPagination (extractAll3BReport (service_extractors sc sd pr iq cc) pg opts)
          = Some \<lparr>limit = lmt, offset = ofs,
                  total = length (extractAccountHistory pg accountHistory_config),
                  hasMore = (ofs + lmt < int (length (extractAccountHistory pg accountHistory_config)))\<rparr>)"
proof -
  have a: "0 \<le> ofs \<and> 0 \<le> lmt \<longrightarrow>
        accounts (extractAccountHistoryPaginated pg cfg \<lparr>opt_limit = Some lmt, opt_offset = Some ofs\<rparr>)
          = take (nat lmt) (drop (nat ofs) (extractAccountHistory pg cfg))"
    by (simp add: paginated_fields js_slice_window)
  have b: "length (extractAccountHistory pg cfg) = 34 \<longrightarrow>
        length (accounts (extractAccountHistoryPaginated pg cfg \<lparr>opt_limit = Some 20, opt_offset = Some 0\<rparr>)) = 20
        \<and> total (extractAccountHistoryPaginated pg cfg \<lparr>opt_limit = Some 20, opt_offset = Some 0\<rparr>) = 34
        \<and> hasMore (extractAccountHistoryPaginated pg cfg \<lparr>opt_limit = Some 20, opt_offset = Some 0\<rparr>)"
    by (simp add: paginated_fields js_slice_def)
  have c: "requested opts ''accountHistory'' \<and>
        accountHistoryOptions opts = Some \<lparr>opt_limit = Some lmt, opt_offset = Some ofs\<rparr> \<longrightarrow>
        accountHistory (extractAll3BReport (service_extractors sc sd pr iq cc) pg opts)
          = Some (Some (js_slice (extractAccountHistory pg accountHistory_config) ofs (ofs + lmt)))
        \<and> accountHistoryPagination (extractAll3BReport (service_extractors sc sd pr iq cc) pg opts)
          = Some \<lparr>limit = lmt, offset = ofs,
                  total = length (extractAccountHistory pg accountHistory_config),
                  hasMore = (ofs + lmt < int (length (extractAccountHistory pg accountHistory_config)))\<rparr>"
  proof (intro impI)
    assume h: "requested opts ''accountHistory'' \<and>
        accountHistoryOptions opts = Some \<lparr>opt_limit = Some lmt, opt_offset = Some ofs\<rparr>"
    let ?ao = "\<lparr>opt_limit = Some lmt, opt_offset = Some ofs\<rparr>"
    have r: "requested opts ''accountHistory''" and o: "accountHistoryOptions opts = Some ?ao"
      using h by auto
    have l: "opt_limit ?ao \<noteq> None" by simp
    show "accountHistory (extractAll3BReport (service_extractors sc sd pr iq cc) pg opts)
          = Some (Some (js_slice (extractAccountHistory pg accountHistory_config) ofs (ofs + lmt)))
        \<and> accountHistoryPagination (extractAll3BReport (service_extractors sc sd pr iq cc) pg opts)
          = Some \<lparr>limit = lmt, offset = ofs,
                  total = length (extractAccountHistory pg accountHistory_config),
                  hasMore = (ofs + lmt < int (length (extractAccountHistory pg accountHistory_config)))\<rparr>"
      using step_accountHistory_own(2)[OF r o l, of "service_extractors sc sd pr iq cc" pg empty_raw3BData]
            step_accountHistory_own(3)[OF r o l service_calls, of sc sd pr iq cc pg empty_raw3BData]
      by (simp add: extractAll_fields service_calls paginated_fields)
  qed
  show ?thesis using a b c by (simp add: paginated_fields)
qed

text \<open>The theorem at a document with 34 accounts, limit 20 and offset 0.\<close>

lemma many_section: "accountHistorySection many_accounts_page = Some many_accounts_section"
  by (simp add: accountHistorySection_def many_accounts_page_def many_accounts_section_def)

lemma many_length: "length (extractAccountHistory many_accounts_page accountHistory_config) = 34"
proof -
  have ok: "list_all usable_grid (accountContainers many_accounts_section)"
    by (simp add: many_accounts_section_def usable_grid_def good_container_def four_columns_def
          list_all_length)
  show ?thesis using extract_usable_length[OF many_section ok]
    by (simp add: many_accounts_section_def)
qed

theorem pagination_view_witness:
  "length (accounts (extractAccountHistoryPaginated many_accounts_page accountHistory_config
             \<lparr>opt_limit = Some 20, opt_offset = Some 0\<rparr>)) = 20
   \<and> total (extractAccountHistoryPaginated many_accounts_page accountHistory_config
             \<lparr>opt_limit = Some 20, opt_offset = Some 0\<rparr>) = 34
   \<and> hasMore (extractAccountHistoryPaginated many_accounts_page accountHistory_config
             \<lparr>opt_limit = Some 20, opt_offset = Some 0\<rparr>)
   \<and> accounts (extractAccountHistoryPaginated many_accounts_page accountHistory_config
             \<lparr>opt_limit = Some 20, opt_offset = Some 0\<rparr>)
       = take 20 (extractAccountHistory many_accounts_page accountHistory_config)
   \<and> accountHistoryPagination
        (extractAll3BReport (service_extractors (\<lambda>p. Inr None) (\<lambda>p. Inr None) (\<lambda>p. Inr None)
            (\<lambda>p. Inr None) (\<lambda>p. Inr [])) many_accounts_page
          \<lparr>sections = Some [''accountHistory''],
           accountHistoryOptions = Some \<lparr>opt_limit = Some 20, opt_offset = Some 0\<rparr>\<rparr>)
       = Some \<lparr>limit = 20, offset = 0, total = 34, hasMore = True\<rparr>"
  using pagination_view[of many_accounts_page accountHistory_config 20 0
          "\<lparr>sections = Some [''accountHistory''],
            accountHistoryOptions = Some \<lparr>opt_limit = Some 20, opt_offset = Some 0\<rparr>\<rparr>"
          "\<lambda>p. Inr None" "\<lambda>p. Inr None" "\<lambda>p. Inr None" "\<lambda>p. Inr None" "\<lambda>p. Inr []"]
        many_length
  by (simp add: requested_def js_slice_def)

section \<open>The report builder\<close>

lemma cleanText_ok: "isl (cleanText v) = (\<not> clean_ok v)"
  using cleanText_throws[of v] by (auto simp: clean_ok_def)

lemma cleanText_ok_obtain: "clean_ok v \<Longrightarrow> \<exists>r. cleanText v = Inr r"
  using cleanText_ok[of v] by (cases "cleanText v") auto

lemma build_obj_isl: "isl (build_obj kvs) = list_ex (\<lambda>kv. isl (snd kv)) kvs"
proof (induction kvs)
  case Nil then show ?case by simp
next
  case (Cons kv kvs)
  obtain k r where kv: "kv = (k, r)" by (cases kv)
  show ?case using Cons.IH by (cases r; cases "build_obj kvs") (auto simp: kv)
qed

lemma parsePersonalInfo_returns: "isl (parsePersonalInfo b) = (\<not> personal_ok b)"
  unfolding parsePersonalInfo_def build_obj_isl
  by (simp add: personal_ok_def cleanText_ok)

lemma parseSummary_returns: "isl (parseSummary b) = (\<not> summary_ok b)"
  unfolding parseSummary_def build_obj_isl
  by (simp add: summary_ok_def cleanText_ok)

lemma build_bureaus_isl: "isl (build_bureaus t x q) = (isl t \<or> isl x \<or> isl q)"
  by (auto simp: build_bureaus_def split: sum.splits)

lemma parse3B_returns:
  "isl (parse3BPersonalInfo v) = (\<not> (personal_ok (transunion v) \<and> personal_ok (experian v) \<and> personal_ok (equifax v)))"
  "isl (parse3BSummary v) = (\<not> (summary_ok (transunion v) \<and> summary_ok (experian v) \<and> summary_ok (equifax v)))"
  by (simp_all add: parse3BPersonalInfo_def parse3BSummary_def build_bureaus_isl
        parsePersonalInfo_returns parseSummary_returns)

lemma build_obj_keys: "build_obj kvs = Inr ob \<Longrightarrow> map fst ob = map fst kvs"
proof (induction kvs arbitrary: ob)
  case Nil then show ?case by simp
next
  case (Cons kv kvs)
  obtain k r where kv: "kv = (k, r)" by (cases kv)
  show ?case using Cons by (cases r; cases "build_obj kvs") (auto simp: kv)
qed

text \<open>The result of \<open>buildFullReport\<close>, as a function of the section values.\<close>

lemma buildFullReport_cases:
  "buildFullReport rawData opts d t =
    (if \<not> sections_parse rawData then Inl (projl (buildFullReport rawData opts d t))
     else Inr
       ([(''dashboard_summary'',
            (if builds_dashboard rawData opts
             then RDashboard (buildDashboardSection (the (dashboardScores rawData)) d)
             else RNull)),
         (''credit_scores_3b'',
            (case scores rawData of Some (Some v) \<Rightarrow> RBureaus v | _ \<Rightarrow> RNull)),
         (''personal_information'',
            (case personalInfo rawData of
               Some (Some v) \<Rightarrow> RGrid (projr (parse3BPersonalInfo v)) | _ \<Rightarrow> RNull)),
         (''summary'',
            (case summary rawData of
               Some (Some v) \<Rightarrow> RGrid (projr (parse3BSummary v)) | _ \<Rightarrow> RNull)),
         (''account_history'',
            (case accountHistory rawData of
               Some (Some v) \<Rightarrow> RAccounts (parseAccountHistory v) | _ \<Rightarrow> RNull)),
         (''public_records'',
            (case publicRecords rawData of Some (Some v) \<Rightarrow> RBureaus v | _ \<Rightarrow> RNull)),
         (''inquiries'',
            (case inquiries rawData of Some (Some v) \<Rightarrow> RInquiries v | _ \<Rightarrow> RNull)),
         (''creditor_contacts'',
            (case creditorContacts rawData of Some (Some v) \<Rightarrow> RContacts v | _ \<Rightarrow> RNull)),
         (''scraped_at'', RText t)] @
        (case accountHistoryPagination rawData of
           Some pg \<Rightarrow> [(''account_history_pagination'', RPagination pg)] | None \<Rightarrow> [])))"
proof (cases "sections_parse rawData")
  case True
  have pi: "(case personalInfo rawData of
               Some (Some v) \<Rightarrow>
                 (case parse3BPersonalInfo v of Inl e \<Rightarrow> Inl e | Inr r \<Rightarrow> Inr (RGrid r))
             | _ \<Rightarrow> Inr RNull)
          = Inr (case personalInfo rawData of
               Some (Some v) \<Rightarrow> RGrid (projr (parse3BPersonalInfo v)) | _ \<Rightarrow> RNull)"
  proof (cases "personalInfo rawData")
    case None then show ?thesis by simp
  next
    case (Some a)
    show ?thesis
    proof (cases a)
      case None then show ?thesis using Some by simp
    next
      case (Some v)
      then have "\<not> isl (parse3BPersonalInfo v)"
        using True \<open>personalInfo rawData = Some a\<close> by (simp add: sections_parse_def parse3B_returns)
      then show ?thesis using Some \<open>personalInfo rawData = Some a\<close>
        by (cases "parse3BPersonalInfo v") auto
    qed
  qed
  have su: "(case summary rawData of
               Some (Some v) \<Rightarrow>
                 (case parse3BSummary v of Inl e \<Rightarrow> Inl e | Inr r \<Rightarrow> Inr (RGrid r))
             | _ \<Rightarrow> Inr RNull)
          = Inr (case summary rawData of
               Some (Some v) \<Rightarrow> RGrid (projr (parse3BSummary v)) | _ \<Rightarrow> RNull)"
  proof (cases "summary rawData")
    case None then show ?thesis by simp
  next
    case (Some a)
    show ?thesis
    proof (cases a)
      case None then show ?thesis using Some by simp
    next
      case (Some v)
      then have "\<not> isl (parse3BSummary v)"
        using True \<open>summary rawData = Some a\<close> by (simp add: sections_parse_def parse3B_returns)
      then show ?thesis using Some \<open>summary rawData = Some a\<close>
        by (cases "parse3BSummary v") auto
    qed
  qed
  have da: "(if (case includeDashboard opts of None \<Rightarrow> False | Some b \<Rightarrow> b) then
                   (case dashboardScores rawData of
                      Some ds \<Rightarrow> RDashboard (buildDashboardSection ds d)
                    | None \<Rightarrow> RNull)
                 else RNull)
          = (if builds_dashboard rawData opts
             then RDashboard (buildDashboardSection (the (dashboardScores rawData)) d)
             else RNull)"
    by (auto simp: builds_dashboard_def split: option.splits)
  show ?thesis
    unfolding buildFullReport_def Let_def pi su da
    using True by (cases "accountHistoryPagination rawData") simp_all
next
  case False
  have "isl (buildFullReport rawData opts d t)"
  proof -
    from False consider
        (p) v where "personalInfo rawData = Some (Some v)" "isl (parse3BPersonalInfo v)"
      | (s) v where "summary rawData = Some (Some v)" "isl (parse3BSummary v)"
      by (auto simp: sections_parse_def parse3B_returns split: option.splits)
    then show ?thesis
    proof cases
      case p
      then obtain e where "parse3BPersonalInfo v = Inl e" by (cases "parse3BPersonalInfo v") auto
      then show ?thesis using p(1) by (simp add: buildFullReport_def Let_def)
    next
      case s
      then obtain e where e: "parse3BSummary v = Inl e" by (cases "parse3BSummary v") auto
      have "isl (case personalInfo rawData of
               Some (Some v) \<Rightarrow>
                 (case parse3BPersonalInfo v of Inl e \<Rightarrow> Inl e | Inr r \<Rightarrow> Inr (RGrid r))
             | _ \<Rightarrow> Inr RNull) \<or> (\<exists>r. (case personalInfo rawData of
               Some (Some v) \<Rightarrow>
                 (case parse3BPersonalInfo v of Inl e \<Rightarrow> Inl e | Inr r \<Rightarrow> Inr (RGrid r))
             | _ \<Rightarrow> Inr RNull) = Inr r)"
        by (metis sum.collapse(2))
      then show ?thesis
        unfolding buildFullReport_def Let_def
        using s(1) e
        by (auto simp: isl_def)
    qed
  qed
  then show ?thesis using False by simp
qed


lemma build_obj_err: "build_obj kvs = Inl e \<Longrightarrow> \<exists>k. (k, Inl e) \<in> set kvs"
proof (induction kvs)
  case Nil then show ?case by simp
next
  case (Cons kv kvs)
  obtain k r where kv: "kv = (k, r)" by (cases kv)
  show ?case using Cons by (cases r; cases "build_obj kvs") (auto simp: kv)
qed

lemma cleanText_err: "cleanText v = Inl e \<Longrightarrow> e = TypeError"
  by (cases v) (auto simp: cleanText_def Let_def split: if_splits)

lemma cleanText_err': "Inl e = cleanText v \<Longrightarrow> e = TypeError"
  using cleanText_err[of v e] by simp

lemma parsePersonalInfo_err: "parsePersonalInfo b = Inl e \<Longrightarrow> e = TypeError"
  unfolding parsePersonalInfo_def
  by (drule build_obj_err) (auto dest: cleanText_err')

lemma parseSummary_err: "parseSummary b = Inl e \<Longrightarrow> e = TypeError"
  unfolding parseSummary_def
  by (drule build_obj_err) (auto dest: cleanText_err')

lemma build_bureaus_err:
  "build_bureaus t x q = Inl e \<Longrightarrow> t = Inl e \<or> x = Inl e \<or> q = Inl e"
  by (auto simp: build_bureaus_def split: sum.splits)

lemma parse3B_err:
  "parse3BPersonalInfo v = Inl e \<Longrightarrow> e = TypeError"
  "parse3BSummary v = Inl e \<Longrightarrow> e = TypeError"
  by (auto simp: parse3BPersonalInfo_def parse3BSummary_def
           dest!: build_bureaus_err dest: parsePersonalInfo_err parseSummary_err)

lemma buildFullReport_err:
  assumes a: "buildFullReport rawData opts d t = Inl e"
  shows "e = TypeError"
proof -
  define pe where "pe = (case personalInfo rawData of
               Some (Some v) \<Rightarrow>
                 (case parse3BPersonalInfo v of Inl e \<Rightarrow> Inl e | Inr r \<Rightarrow> Inr (RGrid r))
             | _ \<Rightarrow> Inr RNull)"
  define se where "se = (case summary rawData of
               Some (Some v) \<Rightarrow>
                 (case parse3BSummary v of Inl e \<Rightarrow> Inl e | Inr r \<Rightarrow> Inr (RGrid r))
             | _ \<Rightarrow> Inr RNull)"
  let ?E = "[(''dashboard_summary'',
            Inr (if (case includeDashboard opts of None \<Rightarrow> False | Some b \<Rightarrow> b) then
                   (case dashboardScores rawData of
                      Some ds \<Rightarrow> RDashboard (buildDashboardSection ds d)
                    | None \<Rightarrow> RNull)
                 else RNull)),
         (''credit_scores_3b'',
            Inr (case scores rawData of Some (Some v) \<Rightarrow> RBureaus v | _ \<Rightarrow> RNull)),
         (''personal_information'', pe),
         (''summary'', se),
         (''account_history'',
            Inr (case accountHistory rawData of
                   Some (Some v) \<Rightarrow> RAccounts (parseAccountHistory v)
                 | _ \<Rightarrow> RNull)),
         (''public_records'',
            Inr (case publicRecords rawData of Some (Some v) \<Rightarrow> RBureaus v | _ \<Rightarrow> RNull)),
         (''inquiries'',
            Inr (case inquiries rawData of Some (Some v) \<Rightarrow> RInquiries v | _ \<Rightarrow> RNull)),
         (''creditor_contacts'',
            Inr (case creditorContacts rawData of Some (Some v) \<Rightarrow> RContacts v | _ \<Rightarrow> RNull)),
         (''scraped_at'', Inr (RText t))]"
  have b: "build_obj ?E = Inl e"
    using a unfolding buildFullReport_def Let_def pe_def[symmetric] se_def[symmetric]
    by (cases "build_obj ?E") (simp_all del: build_obj.simps)
  have "pe = Inl e \<or> se = Inl e"
    using build_obj_err[OF b] by auto
  then show ?thesis
  proof
    assume "pe = Inl e"
    then obtain v where "parse3BPersonalInfo v = Inl e"
      by (auto simp: pe_def split: option.splits sum.splits)
    then show ?thesis by (rule parse3B_err)
  next
    assume "se = Inl e"
    then obtain v where "parse3BSummary v = Inl e"
      by (auto simp: se_def split: option.splits sum.splits)
    then show ?thesis by (rule parse3B_err)
  qed
qed


lemma buildFullReport_throws:
  "\<not> sections_parse rawData \<Longrightarrow> buildFullReport rawData opts d t = Inl TypeError"
proof -
  assume "\<not> sections_parse rawData"
  then have "buildFullReport rawData opts d t = Inl (projl (buildFullReport rawData opts d t))"
    by (subst buildFullReport_cases) simp
  then show ?thesis using buildFullReport_err by metis
qed

lemma buildFullReport_returns:
  "sections_parse rawData \<Longrightarrow>
   buildFullReport rawData opts d t =
     Inr ((''dashboard_summary'',
            (if builds_dashboard rawData opts
             then RDashboard (buildDashboardSection (the (dashboardScores rawData)) d)
             else RNull)) # section_values rawData @ [(''scraped_at'', RText t)] @ pagination_entry rawData)"
  by (subst buildFullReport_cases) (simp add: section_values_def pagination_entry_def)











text \<open>What the grid extractor returns has text fields that the section parsers accept.\<close>

lemma update_values:
  "(k', v') \<in> set (AList.update k v al) \<Longrightarrow> (k', v') = (k, v) \<or> (k', v') \<in> set al"
  by (induction al) (auto split: if_splits)

lemma mapFields_values:
  "(k, v) \<in> set (fold (\<lambda>(index, fieldName) ob. AList.update fieldName (text_or_null (nth_opt dataArray index)) ob) xs acc)
   \<Longrightarrow> (\<exists>t. v = text_or_null t) \<or> (k, v) \<in> set acc"
proof (induction xs arbitrary: acc)
  case Nil then show ?case by simp
next
  case (Cons x xs)
  obtain i f where x: "x = (i, f)" by (cases x)
  from Cons.IH[of "AList.update f (text_or_null (nth_opt dataArray i)) acc"] Cons.prems
  show ?case by (auto simp: x dest: update_values)
qed

lemma text_or_null_clean: "clean_ok (text_or_null t)"
  by (cases t) (auto simp: text_or_null_def clean_ok_def)

lemma mapFields_clean: "clean_ok (js_get (mapFieldsToObject fs dataArray) k)"
proof (cases "map_of (mapFieldsToObject fs dataArray) k")
  case None then show ?thesis by (simp add: js_get_def clean_ok_def)
next
  case (Some v)
  then have "(k, v) \<in> set (mapFieldsToObject fs dataArray)" by (rule map_of_SomeD)
  then obtain t where "v = text_or_null t"
    unfolding mapFieldsToObject_def using mapFields_values[of k v dataArray "enumerate 0 fs" "[]"] by auto
  then show ?thesis using Some by (simp add: js_get_def text_or_null_clean)
qed

lemma grid_output_parses:
  "extractGridData pg cfg = Some v \<Longrightarrow>
     personal_ok (transunion v) \<and> personal_ok (experian v) \<and> personal_ok (equifax v) \<and>
     summary_ok (transunion v) \<and> summary_ok (experian v) \<and> summary_ok (equifax v)"
  by (auto simp: extractGridData_def personal_ok_def summary_ok_def mapFields_clean
           split: sum.splits option.splits)

lemma absent_case:
  "(\<And>v. f v \<noteq> RNull) \<Longrightarrow>
   ((case x of None \<Rightarrow> RNull | Some None \<Rightarrow> RNull | Some (Some v) \<Rightarrow> f v) = RNull) = absent x"
  by (auto simp: absent_def split: option.splits)

lemma map_of_append_found: "map_of xs k = Some v \<Longrightarrow> map_of (xs @ ys) k = Some v"
  by simp

lemma report_lookup:
  assumes "sections_parse rawData"
  shows "buildFullReport rawData opts d t = Inr rep \<Longrightarrow>
         map_of rep ''credit_scores_3b''
           = Some (case scores rawData of Some (Some v) \<Rightarrow> RBureaus v | _ \<Rightarrow> RNull)
         \<and> map_of rep ''personal_information''
           = Some (case personalInfo rawData of
                     Some (Some v) \<Rightarrow> RGrid (projr (parse3BPersonalInfo v)) | _ \<Rightarrow> RNull)
         \<and> map_of rep ''summary''
           = Some (case summary rawData of
                     Some (Some v) \<Rightarrow> RGrid (projr (parse3BSummary v)) | _ \<Rightarrow> RNull)
         \<and> map_of rep ''account_history''
           = Some (case accountHistory rawData of
                     Some (Some v) \<Rightarrow> RAccounts (parseAccountHistory v) | _ \<Rightarrow> RNull)
         \<and> map_of rep ''public_records''
           = Some (case publicRecords rawData of Some (Some v) \<Rightarrow> RBureaus v | _ \<Rightarrow> RNull)
         \<and> map_of rep ''inquiries''
           = Some (case inquiries rawData of Some (Some v) \<Rightarrow> RInquiries v | _ \<Rightarrow> RNull)
         \<and> map_of rep ''creditor_contacts''
           = Some (case creditorContacts rawData of Some (Some v) \<Rightarrow> RContacts v | _ \<Rightarrow> RNull)
         \<and> map_of rep ''scraped_at'' = Some (RText t)
         \<and> map fst rep = report_keys @ map fst (pagination_entry rawData)"
proof -
  assume r: "buildFullReport rawData opts d t = Inr rep"
  define D where "D = (if builds_dashboard rawData opts
             then RDashboard (buildDashboardSection (the (dashboardScores rawData)) d)
             else RNull)"
  define front where "front = (''dashboard_summary'', D) # section_values rawData @ [(''scraped_at'', RText t)]"
  have rep: "rep = front @ pagination_entry rawData"
    using r unfolding buildFullReport_returns[OF assms] by (simp add: front_def D_def)
  have f: "map_of front ''credit_scores_3b''
           = Some (case scores rawData of Some (Some v) \<Rightarrow> RBureaus v | _ \<Rightarrow> RNull)"
     "map_of front ''personal_information''
           = Some (case personalInfo rawData of
                     Some (Some v) \<Rightarrow> RGrid (projr (parse3BPersonalInfo v)) | _ \<Rightarrow> RNull)"
     "map_of front ''summary''
           = Some (case summary rawData of
                     Some (Some v) \<Rightarrow> RGrid (projr (parse3BSummary v)) | _ \<Rightarrow> RNull)"
     "map_of front ''account_history''
           = Some (case accountHistory rawData of
                     Some (Some v) \<Rightarrow> RAccounts (parseAccountHistory v) | _ \<Rightarrow> RNull)"
     "map_of front ''public_records''
           = Some (case publicRecords rawData of Some (Some v) \<Rightarrow> RBureaus v | _ \<Rightarrow> RNull)"
     "map_of front ''inquiries''
           = Some (case inquiries rawData of Some (Some v) \<Rightarrow> RInquiries v | _ \<Rightarrow> RNull)"
     "map_of front ''creditor_contacts''
           = Some (case creditorContacts rawData of Some (Some v) \<Rightarrow> RContacts v | _ \<Rightarrow> RNull)"
     "map_of front ''scraped_at'' = Some (RText t)"
    by (simp_all add: front_def section_values_def)
  have k: "map fst front = report_keys"
    by (simp add: front_def section_values_def report_keys_def)
  show ?thesis
    unfolding rep using f[THEN map_of_append_found, of "pagination_entry rawData"] k
    by simp
qed

text \<open>
  Claim C8, as amended. \<open>buildFullReport\<close> returns a report exactly when the text fields
  of the Personal Information and Summary sections, if these are there, are strings or
  falsy values (as the grid extractor produces them, by \<open>grid_output_parses\<close>). The
  report it returns has the keys
  \<open>dashboard_summary\<close>, \<open>credit_scores_3b\<close>, \<open>personal_information\<close>, \<open>summary\<close>,
  \<open>account_history\<close>, \<open>public_records\<close>, \<open>inquiries\<close>, \<open>creditor_contacts\<close> and
  \<open>scraped_at\<close>, in this order, and \<open>account_history_pagination\<close> after them when the
  raw data carries a pagination. The value of a section key is null exactly when the raw
  section is missing or null; so no key is ever absent, and a section that the
  orchestrator left as an empty list is reported as an empty list.
\<close>

theorem report_schema:
  "(\<exists>r. buildFullReport rawData opts d t = Inr r) = sections_parse rawData
   \<and> (buildFullReport rawData opts d t = Inr rep \<longrightarrow>
        map fst rep =
          report_keys @ (case accountHistoryPagination rawData of
                           None \<Rightarrow> [] | Some pg \<Rightarrow> [''account_history_pagination''])
        \<and> (map_of rep ''credit_scores_3b'' = Some RNull) = absent (scores rawData)
        \<and> (map_of rep ''personal_information'' = Some RNull) = absent (personalInfo rawData)
        \<and> (map_of rep ''summary'' = Some RNull) = absent (summary rawData)
        \<and> (map_of rep ''account_history'' = Some RNull) = absent (accountHistory rawData)
        \<and> (map_of rep ''public_records'' = Some RNull) = absent (publicRecords rawData)
        \<and> (map_of rep ''inquiries'' = Some RNull) = absent (inquiries rawData)
        \<and> (map_of rep ''creditor_contacts'' = Some RNull) = absent (creditorContacts rawData)
        \<and> map_of rep ''scraped_at'' = Some (RText t))"
proof (cases "sections_parse rawData")
  case False
  then show ?thesis by (simp add: buildFullReport_throws)
next
  case True
  have pk: "map fst (pagination_entry rawData) =
       (case accountHistoryPagination rawData of None \<Rightarrow> [] | Some pg \<Rightarrow> [''account_history_pagination''])"
    by (simp add: pagination_entry_def split: option.splits)
  have ex: "\<exists>r. buildFullReport rawData opts d t = Inr r"
    by (simp add: buildFullReport_returns[OF True])
  show ?thesis
  proof (intro conjI impI)
    show "(\<exists>r. buildFullReport rawData opts d t = Inr r) = sections_parse rawData"
      using ex True by simp
  next
    assume r: "buildFullReport rawData opts d t = Inr rep"
    note l = report_lookup[OF True r]
    show "map fst rep =
          report_keys @ (case accountHistoryPagination rawData of
                           None \<Rightarrow> [] | Some pg \<Rightarrow> [''account_history_pagination''])"
      using l pk by simp
    show "(map_of rep ''credit_scores_3b'' = Some RNull) = absent (scores rawData)"
      using l by (simp add: absent_case)
    show "(map_of rep ''personal_information'' = Some RNull) = absent (personalInfo rawData)"
      using l by (simp add: absent_case)
    show "(map_of rep ''summary'' = Some RNull) = absent (summary rawData)"
      using l by (simp add: absent_case)
    show "(map_of rep ''account_history'' = Some RNull) = absent (accountHistory rawData)"
      using l by (simp add: absent_case)
    show "(map_of rep ''public_records'' = Some RNull) = absent (publicRecords rawData)"
      using l by (simp add: absent_case)
    show "(map_of rep ''inquiries'' = Some RNull) = absent (inquiries rawData)"
      using l by (simp add: absent_case)
    show "(map_of rep ''creditor_contacts'' = Some RNull) = absent (creditorContacts rawData)"
      using l by (simp add: absent_case)
    show "map_of rep ''scraped_at'' = Some (RText t)"
      using l by simp
  qed
qed


lemma failing_personalInfo_raw:
  "personalInfo (extractAll3BReport failing_personalInfo () all_sections) = Some None"
  "scores (extractAll3BReport failing_personalInfo () all_sections) = Some (Some sample_scores)"
  "summary (extractAll3BReport failing_personalInfo () all_sections) = Some (Some sample_grid_result)"
  "accountHistoryPagination (extractAll3BReport failing_personalInfo () all_sections) = None"
  by (simp_all add: extractAll_fields)
     (simp_all add: step_scores_def step_personalInfo_def step_summary_def step_accountHistory_def
        step_creditorContacts_def requested_def failing_personalInfo_def all_sections_def Let_def
        empty_raw3BData_def personalInfo_config_def summary_config_def)

lemma failing_personalInfo_parse:
  "sections_parse (extractAll3BReport failing_personalInfo () all_sections)"
  by (simp add: sections_parse_def failing_personalInfo_raw sample_grid_result_def summary_ok_def
        clean_ok_def js_get_def)

text \<open>
  The theorem at the raw sections that the orchestrator returns when the Personal
  Information read throws: the report has all its keys, with null for that section.
\<close>

theorem report_schema_witness:
  "\<exists>rep. buildFullReport (extractAll3BReport failing_personalInfo () all_sections) default_options
            [] ''2026-01-07T10:00:00.000Z'' = Inr rep
         \<and> map fst rep = report_keys
         \<and> map_of rep ''personal_information'' = Some RNull
         \<and> map_of rep ''credit_scores_3b'' \<noteq> Some RNull
         \<and> map_of rep ''scraped_at'' = Some (RText ''2026-01-07T10:00:00.000Z'')"
proof -
  let ?raw = "extractAll3BReport failing_personalInfo () all_sections"
  let ?t = "''2026-01-07T10:00:00.000Z''"
  obtain rep where r: "buildFullReport ?raw default_options [] ?t = Inr rep"
    using report_schema[of ?raw default_options "[]" ?t] failing_personalInfo_parse by blast
  show ?thesis
    using report_schema[of ?raw default_options "[]" ?t rep] r
    by (simp add: failing_personalInfo_raw absent_def)
qed

lemma failing_lists_raw:
  "personalInfo (extractAll3BReport failing_lists () all_sections) = Some None"
  "summary (extractAll3BReport failing_lists () all_sections) = Some None"
  "accountHistory (extractAll3BReport failing_lists () all_sections) = Some (Some [])"
  "creditorContacts (extractAll3BReport failing_lists () all_sections) = Some (Some [])"
  by (simp_all add: extractAll_fields)
     (simp_all add: step_scores_def step_personalInfo_def step_summary_def step_accountHistory_def
        step_creditorContacts_def requested_def failing_lists_def all_sections_def Let_def
        empty_raw3BData_def personalInfo_config_def summary_config_def)

lemma failing_lists_parse: "sections_parse (extractAll3BReport failing_lists () all_sections)"
  by (simp add: sections_parse_def failing_lists_raw)

text \<open>
  The claim as written gives null to every section that failed. When the Account History
  read and the Creditor Contacts read throw, the orchestrator leaves empty lists, and the
  report holds empty lists, not null.
\<close>

theorem failed_lists_counterexample:
  "call_extractAccountHistory failing_lists () accountHistory_config = Inl (Error ''forced failure'')
   \<and> call_extractCreditorContacts failing_lists () = Inl (Error ''forced failure'')
   \<and> report_get (buildFullReport (extractAll3BReport failing_lists () all_sections) default_options
         [] ''2026-01-07T10:00:00.000Z'') ''account_history'' = Some (RAccounts [])
   \<and> report_get (buildFullReport (extractAll3BReport failing_lists () all_sections) default_options
         [] ''2026-01-07T10:00:00.000Z'') ''creditor_contacts'' = Some (RContacts [])"
proof -
  have c: "call_extractAccountHistory failing_lists () accountHistory_config = Inl (Error ''forced failure'')
   \<and> call_extractCreditorContacts failing_lists () = Inl (Error ''forced failure'')"
    by (simp add: failing_lists_def)
  have g: "report_get (buildFullReport (extractAll3BReport failing_lists () all_sections) default_options
         [] ''2026-01-07T10:00:00.000Z'') ''account_history'' = Some (RAccounts [])
   \<and> report_get (buildFullReport (extractAll3BReport failing_lists () all_sections) default_options
         [] ''2026-01-07T10:00:00.000Z'') ''creditor_contacts'' = Some (RContacts [])"
    unfolding buildFullReport_returns[OF failing_lists_parse]
    by (simp add: report_get_def section_values_def failing_lists_raw parseAccountHistory_def)
  show ?thesis using c g by simp
qed

end
